theory Spec2Isabelle
  imports Main "HOL-Library.Sublist" "HOL-Library.Multiset"
begin

section \<open>Common JavaScript notions\<close>

text \<open>
  The repository holds two forks of \<^verbatim>\<open>utils/systemUtils.js\<close>. Definitions with the
  suffix \<open>1\<close> embed the first fork (lines 1 to 4293 of the source file), definitions with
  the suffix \<open>2\<close> the second one (lines 4293 to 6579).

  Time values are the millisecond counts that \<^verbatim>\<open>Date.prototype.getTime\<close> yields and that
  the subtraction of two \<^verbatim>\<open>Date\<close> objects works on; they are integers. Where the code
  builds a date from text and does not check it, the time value may also be \<^verbatim>\<open>NaN\<close>, the
  time value of an invalid date: such a value is a \<open>js_time\<close>, with \<open>None\<close> for \<^verbatim>\<open>NaN\<close>.
\<close>

type_synonym time_ms = int

type_synonym js_time = "time_ms option"

datatype platform = Win32 | Darwin | Linux

subsection \<open>\<^verbatim>\<open>Array.prototype.sort\<close> with a comparator\<close>

text \<open>
  ECMAScript requires \<^verbatim>\<open>sort\<close> to be stable and, for a consistent comparator, to
  produce the order the comparator describes. The comparators of the repository subtract
  two time values, which is consistent on valid times. The embedding is the stable
  insertion sort driven by the comparator: \<open>x\<close> goes in front of the first element \<open>y\<close>
  with \<open>cmp x y \<le> 0\<close>.
\<close>

fun js_insert :: "('a \<Rightarrow> 'a \<Rightarrow> int) \<Rightarrow> 'a \<Rightarrow> 'a list \<Rightarrow> 'a list" where
  "js_insert cmp x [] = [x]"
| "js_insert cmp x (y # ys) =
     (if cmp x y \<le> 0 then x # y # ys else y # js_insert cmp x ys)"

definition js_sort :: "('a \<Rightarrow> 'a \<Rightarrow> int) \<Rightarrow> 'a list \<Rightarrow> 'a list" where
  "js_sort cmp xs = foldr (js_insert cmp) xs []"

text \<open>The comparator \<^verbatim>\<open>(a, b) => b.key - a.key\<close>.\<close>

definition by_key_desc :: "('a \<Rightarrow> int) \<Rightarrow> 'a \<Rightarrow> 'a \<Rightarrow> int" where
  "by_key_desc key a b = key b - key a"

text \<open>A list is in descending order of \<open>key\<close>.\<close>

definition sorted_desc :: "('a \<Rightarrow> int) \<Rightarrow> 'a list \<Rightarrow> bool" where
  "sorted_desc key xs = sorted_wrt (\<lambda>a b. key b \<le> key a) xs"

text \<open>
  The same comparator on values that may be \<^verbatim>\<open>NaN\<close>: the difference is \<^verbatim>\<open>NaN\<close> as soon as one
  of the two values is, and \<^verbatim>\<open>sort\<close> takes a comparator result \<^verbatim>\<open>NaN\<close> as \<open>0\<close>. With such
  values among others the comparator is not consistent, and ECMAScript leaves the order of
  the result to the engine; in every engine the result is a permutation.
\<close>

definition by_time_desc :: "('a \<Rightarrow> js_time) \<Rightarrow> 'a \<Rightarrow> 'a \<Rightarrow> int" where
  "by_time_desc key a b =
     (case (key b, key a) of
        (Some timeB, Some timeA) \<Rightarrow> timeB - timeA
      | _ \<Rightarrow> 0)"

text \<open>\<^verbatim>\<open>a >= b\<close> on such values: false as soon as one of the two is \<^verbatim>\<open>NaN\<close>.\<close>

definition js_ge :: "js_time \<Rightarrow> js_time \<Rightarrow> bool" where
  "js_ge a b = (case (a, b) of (Some x, Some y) \<Rightarrow> y \<le> x | _ \<Rightarrow> False)"

text \<open>A list is in descending order of a \<open>key\<close> that may be \<^verbatim>\<open>NaN\<close>.\<close>

definition sorted_desc_time :: "('a \<Rightarrow> js_time) \<Rightarrow> 'a list \<Rightarrow> bool" where
  "sorted_desc_time key xs = sorted_wrt (\<lambda>a b. js_ge (key a) (key b)) xs"

text \<open>Every element of a list has a valid time.\<close>

definition dated :: "('a \<Rightarrow> js_time) \<Rightarrow> 'a list \<Rightarrow> bool" where
  "dated key xs = list_all (\<lambda>x. key x \<noteq> None) xs"

section \<open>Deleted-file finder\<close>

text \<open>
  A finding of \<^verbatim>\<open>getRecentlyDeletedFiles\<close>. The field \<open>operation\<close> is only set on the
  findings that come from the Windows event log. The \<^verbatim>\<open>deletedTime\<close> of a finding from a
  trash folder is the modification time of a file, or a deletion date that has passed the
  comparison with the time threshold, and is valid. The \<^verbatim>\<open>deletedTime\<close> of a finding from the
  Windows event log is \<^verbatim>\<open>new Date(text)\<close> of the time that PowerShell has printed, which
  neither fork checks: it is \<^verbatim>\<open>NaN\<close> when the text is not a date for \<^verbatim>\<open>new Date\<close>, as with
  the \<^verbatim>\<open>/Date(1700000000000)/\<close> that Windows PowerShell prints.
\<close>

record deleted_file =
  df_name :: string
  df_path :: string
  deletedTime :: js_time
  operation :: "string option"

text \<open>
  What the operating system answers to one run of the deleted-file finder: the platform,
  \<^verbatim>\<open>process.env.USERPROFILE\<close>, and the findings that each of the search helpers pushes
  (\<^verbatim>\<open>searchRecycleBin\<close>, \<^verbatim>\<open>searchDeletedFiles\<close>, \<^verbatim>\<open>searchLinuxTrash\<close>, which catch
  their own errors) or returns (the event log query; \<open>None\<close> when it throws).
\<close>

record deleted_env =
  de_platform :: platform
  de_userprofile :: "string option"
  de_recycleBin :: "deleted_file list"
  de_eventLog :: "deleted_file list option"
  de_trash :: "deleted_file list"
  de_linuxTrash :: "deleted_file list"

datatype js_error = Error string

text \<open>
  First fork, \<^verbatim>\<open>getRecentlyDeletedFiles\<close>. \<^verbatim>\<open>path.join\<close> throws a \<^verbatim>\<open>TypeError\<close> on an
  undefined argument, and the outer \<^verbatim>\<open>catch\<close> rethrows it.
  \<^verbatim>\<open>tryUsingDataRecoveryTools\<close> returns at once.
\<close>

definition collectDeleted1 :: "deleted_env \<Rightarrow> js_error + deleted_file list" where
  "collectDeleted1 env =
     (case de_platform env of
        Win32 \<Rightarrow>
          (case de_userprofile env of
             None \<Rightarrow> Inl (Error ''The \"path\" argument must be of type string. Received undefined'')
           | Some _ \<Rightarrow>
               Inr (de_recycleBin env @
                    (case de_eventLog env of
                       None \<Rightarrow> []
                     | Some eventLogs \<Rightarrow>
                         filter (\<lambda>item. operation item = Some ''delete'') eventLogs)))
      | Darwin \<Rightarrow> Inr (de_trash env)
      | Linux \<Rightarrow> Inr (de_linuxTrash env))"

definition getRecentlyDeletedFiles1 :: "deleted_env \<Rightarrow> js_error + deleted_file list" where
  "getRecentlyDeletedFiles1 env =
     (case collectDeleted1 env of
        Inl e \<Rightarrow> Inl e
      | Inr result \<Rightarrow> Inr (js_sort (by_time_desc deletedTime) result))"

text \<open>
  Second fork, \<^verbatim>\<open>getRecentlyDeletedFiles\<close>: the event-log findings come first on Windows,
  every error is caught, and the sorted list is cut by \<^verbatim>\<open>.slice(0, 20)\<close>.
\<close>

definition collectDeleted2 :: "deleted_env \<Rightarrow> deleted_file list" where
  "collectDeleted2 env =
     (case de_platform env of
        Win32 \<Rightarrow>
          (case de_eventLog env of None \<Rightarrow> [] | Some events \<Rightarrow> events) @ de_recycleBin env
      | Darwin \<Rightarrow> de_trash env
      | Linux \<Rightarrow> de_linuxTrash env)"

definition getRecentlyDeletedFiles2 :: "deleted_env \<Rightarrow> deleted_file list" where
  "getRecentlyDeletedFiles2 env =
     take 20 (js_sort (by_time_desc deletedTime) (collectDeleted2 env))"

section \<open>Strings\<close>

text \<open>
  File names, paths and command output are strings of ASCII characters.
  \<^verbatim>\<open>toLowerCase\<close> maps the letters \<^verbatim>\<open>A\<close> to \<^verbatim>\<open>Z\<close> to \<^verbatim>\<open>a\<close> to \<^verbatim>\<open>z\<close> and
  leaves every other character alone. The letters \<^verbatim>\<open>A\<close> to \<^verbatim>\<open>Z\<close> have the codes 65 to
  90: of the eight bits of the code, bit 7 and bit 5 are clear, bit 6 is set, and the low
  five bits are a number from 1 to 26, that is, not 0 and not 27 to 31. The lower-case
  letter has bit 5 set and the other bits unchanged.
\<close>

fun toLowerCase_char :: "char \<Rightarrow> char" where
  "toLowerCase_char (Char b0 b1 b2 b3 b4 b5 b6 b7) =
     (if \<not> b7 \<and> b6 \<and> \<not> b5 \<and> (b0 \<or> b1 \<or> b2 \<or> b3 \<or> b4) \<and>
         \<not> (b4 \<and> b3 \<and> (b2 \<or> (b1 \<and> b0)))
      then Char b0 b1 b2 b3 b4 True b6 b7
      else Char b0 b1 b2 b3 b4 b5 b6 b7)"

definition toLowerCase :: "string \<Rightarrow> string" where
  "toLowerCase s = map toLowerCase_char s"

fun startsWith :: "string \<Rightarrow> string \<Rightarrow> bool" where
  "startsWith s [] = True"
| "startsWith [] (p # ps) = False"
| "startsWith (c # cs) (p # ps) = (c = p \<and> startsWith cs ps)"

definition endsWith :: "string \<Rightarrow> string \<Rightarrow> bool" where
  "endsWith s ending = startsWith (rev s) (rev ending)"

fun js_includes :: "string \<Rightarrow> string \<Rightarrow> bool" where
  "js_includes [] sub = (sub = [])"
| "js_includes (c # cs) sub = (startsWith (c # cs) sub \<or> js_includes cs sub)"

text \<open>\<^verbatim>\<open>s.split(sep)\<close> for a separator of one character; the result is never empty.\<close>

fun js_split :: "char \<Rightarrow> string \<Rightarrow> string list" where
  "js_split sep [] = [[]]"
| "js_split sep (c # cs) =
     (if c = sep then [] # js_split sep cs
      else (case js_split sep cs of
              [] \<Rightarrow> [[c]]
            | p # ps \<Rightarrow> (c # p) # ps))"


text \<open>
  \<^verbatim>\<open>path.join(dir, name)\<close> on POSIX paths that need no other normalisation than the
  separator after a directory that ends with one.
\<close>

definition path_join :: "string \<Rightarrow> string \<Rightarrow> string" where
  "path_join dir entry =
     (if dir \<noteq> [] \<and> last dir = CHR ''/'' then dir @ entry else dir @ ''/'' @ entry)"

section \<open>Original-name guess\<close>

text \<open>
  First fork: \<^verbatim>\<open>/^(.+)\.(jar|exe|dll|bat|vbs)\.(txt|png|jpg|jpeg)$/i\<close>. The first group is
  greedy, so the longest prefix is tried first; \<^verbatim>\<open>.\<close> does not match a line terminator;
  what follows the prefix has to be, up to letter case, a dot, one of the five inner
  extensions, a dot and one of the four outer extensions. The function returns the groups
  1 and 2 of the match. Every inner extension has three characters.
\<close>

definition lineTerminator :: "char \<Rightarrow> bool" where
  "lineTerminator c = (c = CHR 0x0A \<or> c = CHR 0x0D)"

definition doubleExtSuffixes :: "string list" where
  "doubleExtSuffixes =
     [''.'' @ inner @ ''.'' @ outer.
        inner \<leftarrow> [''jar'', ''exe'', ''dll'', ''bat'', ''vbs''],
        outer \<leftarrow> [''txt'', ''png'', ''jpg'', ''jpeg'']]"

fun doubleExtMatchFrom :: "string \<Rightarrow> nat \<Rightarrow> (string \<times> string) option" where
  "doubleExtMatchFrom filename 0 = None"
| "doubleExtMatchFrom filename (Suc i) =
     (let group1 = take (Suc i) filename; rest = drop (Suc i) filename
      in if list_all (\<lambda>c. \<not> lineTerminator c) group1 \<and> toLowerCase rest \<in> set doubleExtSuffixes
         then Some (group1, take 3 (drop 1 rest))
         else doubleExtMatchFrom filename i)"

definition doubleExtRegex :: "string \<Rightarrow> (string \<times> string) option" where
  "doubleExtRegex filename = doubleExtMatchFrom filename (length filename)"

text \<open>\<open>None\<close> is the \<^verbatim>\<open>null\<close> that the first fork returns when the name does not match.\<close>

definition getOriginalNameGuess1 :: "string \<Rightarrow> string option" where
  "getOriginalNameGuess1 filename =
     (case doubleExtRegex filename of
        Some (group1, group2) \<Rightarrow> Some (group1 @ ''.'' @ group2)
      | None \<Rightarrow> None)"

text \<open>
  Second fork. With more than two dot-separated parts the first and the last part are
  kept. Otherwise the first match of
  \<^verbatim>\<open>/(\.|_)(old|new|bak|backup|copy|renamed|changed|\d{4}-\d{2}-\d{2})/\<close> is removed:
  the leftmost position wins, and at a position the first alternative that matches.
\<close>

definition isDigit :: "char \<Rightarrow> bool" where
  "isDigit c = (c \<in> set ''0123456789'')"

definition dateStampLength :: "string \<Rightarrow> nat option" where
  "dateStampLength s =
     (if length s \<ge> 10 \<and> list_all (\<lambda>i. isDigit (s ! i)) [0, 1, 2, 3, 5, 6, 8, 9] \<and>
         s ! 4 = CHR ''-'' \<and> s ! 7 = CHR ''-''
      then Some 10 else None)"

fun firstAlternative :: "string list \<Rightarrow> string \<Rightarrow> nat option" where
  "firstAlternative [] s = dateStampLength s"
| "firstAlternative (w # ws) s =
     (if startsWith s w then Some (length w) else firstAlternative ws s)"

definition renameWords :: "string list" where
  "renameWords = [''old'', ''new'', ''bak'', ''backup'', ''copy'', ''renamed'', ''changed'']"

fun removeRenamePattern :: "string \<Rightarrow> string" where
  "removeRenamePattern [] = []"
| "removeRenamePattern (c # cs) =
     (if c = CHR ''.'' \<or> c = CHR ''_'' then
        (case firstAlternative renameWords cs of
           Some n \<Rightarrow> drop n cs
         | None \<Rightarrow> c # removeRenamePattern cs)
      else c # removeRenamePattern cs)"

definition getOriginalNameGuess2 :: "string \<Rightarrow> string" where
  "getOriginalNameGuess2 filename =
     (let parts = js_split (CHR ''.'') filename
      in if length parts > 2 then hd parts @ ''.'' @ last parts
         else removeRenamePattern filename)"

section \<open>Executed-JAR finder\<close>

text \<open>
  The \<^verbatim>\<open>startTime\<close> of a finding is a number in some sources, a date string in others,
  and missing in the rest.
\<close>

datatype start_time = TimeNumber time_ms | TimeString string | TimeUndefined

record executed_jar =
  ej_name :: string
  ej_path :: string
  startTime :: start_time
  ej_source :: string

text \<open>
  The loop that removes duplicates, in both forks: a \<^verbatim>\<open>Set\<close> of the keys seen so far and
  the list of the findings kept. The first fork uses \<^verbatim>\<open>item.path\<close> as the key, the second
  \<^verbatim>\<open>jar.path.toLowerCase()\<close>.
\<close>

fun uniqueLoop ::
  "(string \<Rightarrow> string) \<Rightarrow> executed_jar list \<Rightarrow> string set \<Rightarrow> executed_jar list \<Rightarrow> executed_jar list"
where
  "uniqueLoop norm [] seenPaths uniqueResults = uniqueResults"
| "uniqueLoop norm (item # items) seenPaths uniqueResults =
     (if norm (ej_path item) \<in> seenPaths then uniqueLoop norm items seenPaths uniqueResults
      else uniqueLoop norm items (insert (norm (ej_path item)) seenPaths) (uniqueResults @ [item]))"

text \<open>
  \<^verbatim>\<open>new Date(string).getTime()\<close> is the engine's date parser, a parameter here; \<open>None\<close> is
  \<^verbatim>\<open>NaN\<close>. A comparator that returns \<^verbatim>\<open>NaN\<close> counts as returning \<open>0\<close>. With such values the
  comparator is not consistent and the order that \<^verbatim>\<open>sort\<close> produces is left to the
  engine; the result is a permutation in every engine.
\<close>

text \<open>
  The first fork parses a string and takes any other value as it is; the second fork
  passes the value to \<^verbatim>\<open>new Date\<close>, which does the same for a string and a number and
  gives an invalid date for \<^verbatim>\<open>undefined\<close>.
\<close>

definition startTimeValue :: "(string \<Rightarrow> time_ms option) \<Rightarrow> start_time \<Rightarrow> time_ms option" where
  "startTimeValue parseDate t =
     (case t of
        TimeString s \<Rightarrow> parseDate s
      | TimeNumber n \<Rightarrow> Some n
      | TimeUndefined \<Rightarrow> None)"

definition compareStartTime ::
  "(start_time \<Rightarrow> time_ms option) \<Rightarrow> executed_jar \<Rightarrow> executed_jar \<Rightarrow> int" where
  "compareStartTime val a b =
     (case (val (startTime b), val (startTime a)) of
        (Some timeB, Some timeA) \<Rightarrow> timeB - timeA
      | _ \<Rightarrow> 0)"

text \<open>
  What the three sources of the first fork deliver: the registry (Windows only), the
  findings pushed while walking the execution history, and the Java logs. \<open>None\<close> stands
  for a source that throws; the findings pushed before the throw are the list of
  \<open>ee_history\<close> in that case too, hence no option there.
\<close>

record executed_env =
  ee_platform :: platform
  ee_registry :: "executed_jar list option"
  ee_history :: "executed_jar list"
  ee_javaLogs :: "executed_jar list option"
  ee_executedJars :: "executed_jar list"

definition collectExecuted1 :: "executed_env \<Rightarrow> executed_jar list" where
  "collectExecuted1 env =
     (if ee_platform env = Win32
      then (case ee_registry env of None \<Rightarrow> [] | Some jars \<Rightarrow> jars) else []) @
     ee_history env @
     (case ee_javaLogs env of None \<Rightarrow> [] | Some jars \<Rightarrow> jars)"

definition getRecentlyExecutedJars1 ::
  "(string \<Rightarrow> time_ms option) \<Rightarrow> executed_env \<Rightarrow> executed_jar list" where
  "getRecentlyExecutedJars1 parseDate env =
     js_sort (compareStartTime (startTimeValue parseDate))
       (uniqueLoop (\<lambda>p. p) (collectExecuted1 env) {} [])"

text \<open>
  Second fork: all findings are pushed onto \<^verbatim>\<open>executedJars\<close> from the process list, the
  event log, the prefetch folder and the file-access scan; \<open>ee_executedJars\<close> is that
  list.
\<close>

definition getRecentlyExecutedJars2 ::
  "(string \<Rightarrow> time_ms option) \<Rightarrow> executed_env \<Rightarrow> executed_jar list" where
  "getRecentlyExecutedJars2 parseDate env =
     js_sort (compareStartTime (startTimeValue parseDate))
       (uniqueLoop toLowerCase (ee_executedJars env) {} [])"

section \<open>Minecraft mod scans\<close>

text \<open>
  A directory entry as \<^verbatim>\<open>readdir\<close> with \<^verbatim>\<open>withFileTypes\<close> gives it, and the part of
  \<^verbatim>\<open>fs.Stats\<close> that the scans read. A listing pairs every entry with what \<^verbatim>\<open>stat\<close> does
  on its path: \<open>None\<close> when \<^verbatim>\<open>stat\<close> throws. The locale rendering of a time
  (\<^verbatim>\<open>toLocaleString\<close>) is left out: the records hold the time value.
\<close>

record dirent =
  d_name :: string
  d_isFile :: bool
  d_isDirectory :: bool

record file_stats =
  st_size :: nat
  st_mtime :: time_ms
  st_isDirectory :: bool



subsection \<open>\<^verbatim>\<open>checkMinecraftModFolders\<close> (first fork): the loop over the mods folder\<close>





subsection \<open>\<^verbatim>\<open>scanMinecraftMods\<close> (first fork): the loop over one mod folder\<close>











section \<open>Screen-recording checker\<close>

record recording_result =
  recording :: bool
  applications :: "string list"

text \<open>
  \<^verbatim>\<open>apps.some(app => field1.toLowerCase().includes(app.toLowerCase()) || ...)\<close> over the
  fields that a round looks at.
\<close>

definition someAppIn :: "string list \<Rightarrow> string list \<Rightarrow> bool" where
  "someAppIn apps texts =
     list_ex (\<lambda>app. list_ex (\<lambda>text. js_includes (toLowerCase text) (toLowerCase app)) texts) apps"

subsection \<open>First fork\<close>

definition recordingApps :: "string list" where
  "recordingApps =
     [''OBS Studio'', ''OBS'', ''Streamlabs OBS'', ''XSplit'', ''Bandicam'', ''Camtasia'',
      ''ScreenRecorder'', ''Fraps'', ''Action!'', ''ShareX'', ''Screencast-O-Matic'', ''Debut'',
      ''CamStudio'', ''ScreenFlow'', ''QuickTime Player'', ''ScreencastX'', ''ScreenRec'',
      ''Movavi Screen Recorder'', ''Icecream Screen Recorder'', ''Apowersoft'', ''ScreenToGif'',
      ''DU Recorder'', ''AZ Screen Recorder'', ''FBX'', ''FFmpeg'', ''Screen Recorder'']"

definition falsePositives :: "string list" where
  "falsePositives =
     [''Capture One'', ''Capture NX'', ''Capture Manager'', ''Capture Service'',
      ''Windows Media Player'', ''Windows Photo Viewer'', ''Photos'', ''Camera'',
      ''ScreenSaver'', ''ScreenConnect'', ''Screen Time'', ''Microsoft Teams'',
      ''Adobe Capture'', ''TeamViewer'']"

text \<open>
  What the commands of the first fork deliver, already cut into the values that the
  rounds of the loops read. An outer \<open>None\<close> is a command that fails (or output without
  the line that the code indexes), which the \<^verbatim>\<open>catch\<close> of that part swallows; an inner
  \<open>None\<close> is a line that the regular expression of the round does not match.

  \<^item> \<open>sr_tasklist\<close>: process name and window title of each line of \<^verbatim>\<open>tasklist /v /fo csv\<close>
    after the header;
  \<^item> \<open>sr_services\<close>: name and display name of each running service;
  \<^item> \<open>sr_devices\<close>: caption of each capture or video device;
  \<^item> \<open>sr_processes\<close>: the non-blank lines of \<^verbatim>\<open>ps\<close>;
  \<^item> \<open>sr_permissions\<close>: the application name of each \<^verbatim>\<open>tccutil list\<close> line that mentions
    screen capture;
  \<^item> \<open>sr_compositors\<close>: the non-blank lines of the \<^verbatim>\<open>ps | grep\<close> for compositors.
\<close>

record recording_env =
  sr_platform :: platform
  sr_tasklist :: "(string \<times> string) option list option"
  sr_services :: "(string \<times> string) option list option"
  sr_devices :: "string option list option"
  sr_processes :: "string list option"
  sr_permissions :: "string option list option"
  sr_compositors :: "string list option"

definition tasklistRound :: "(string \<times> string) option \<Rightarrow> recording_result \<Rightarrow> recording_result" where
  "tasklistRound values result =
     (case values of
        None \<Rightarrow> result
      | Some (processName, windowTitle) \<Rightarrow>
          if \<not> someAppIn falsePositives [processName, windowTitle] then
            if someAppIn recordingApps [processName, windowTitle] then
              result\<lparr>recording := True,
                     applications := applications result @
                       [processName @ (if windowTitle \<noteq> [] then '' ('' @ windowTitle @ '')'' else [])]\<rparr>
            else result
          else result)"

definition serviceRound :: "(string \<times> string) option \<Rightarrow> recording_result \<Rightarrow> recording_result" where
  "serviceRound match result =
     (case match of
        None \<Rightarrow> result
      | Some (serviceName, displayName) \<Rightarrow>
          if \<not> someAppIn falsePositives [serviceName, displayName] then
            if someAppIn recordingApps [serviceName, displayName] then
              result\<lparr>recording := True,
                     applications := applications result @ [''Servicio: '' @ displayName]\<rparr>
            else result
          else result)"

text \<open>\<^verbatim>\<open>deviceName.match(/webcam|camera|cam$/i)\<close>.\<close>

definition looksLikeCamera :: "string \<Rightarrow> bool" where
  "looksLikeCamera deviceName =
     (js_includes (toLowerCase deviceName) ''webcam'' \<or>
      js_includes (toLowerCase deviceName) ''camera'' \<or>
      endsWith (toLowerCase deviceName) ''cam'')"

definition deviceRound :: "string option \<Rightarrow> recording_result \<Rightarrow> recording_result" where
  "deviceRound match result =
     (case match of
        None \<Rightarrow> result
      | Some deviceName \<Rightarrow>
          if \<not> someAppIn falsePositives [deviceName] \<and>
             js_includes (toLowerCase deviceName) ''capture'' then
            (let pushed = result\<lparr>applications := applications result @
                                    [''Dispositivo de captura: '' @ deviceName]\<rparr>
             in if \<not> looksLikeCamera deviceName then pushed\<lparr>recording := True\<rparr> else pushed)
          else result)"

definition processRound :: "string \<Rightarrow> recording_result \<Rightarrow> recording_result" where
  "processRound process result =
     (if \<not> someAppIn falsePositives [process] then
        if someAppIn recordingApps [process] then
          result\<lparr>recording := True, applications := applications result @ [process]\<rparr>
        else result
      else result)"

definition permissionRound :: "string option \<Rightarrow> recording_result \<Rightarrow> recording_result" where
  "permissionRound appMatch result =
     (case appMatch of
        None \<Rightarrow> result
      | Some appName \<Rightarrow>
          if \<not> someAppIn falsePositives [appName] then
            result\<lparr>applications := applications result @
                     [appName @ '' (tiene permisos de captura)'']\<rparr>
          else result)"

text \<open>The label of the last round holds the letter o with an acute accent, in UTF-8.\<close>

definition compositorRound :: "string \<Rightarrow> recording_result \<Rightarrow> recording_result" where
  "compositorRound process result =
     (if js_includes process ''grep'' then result
      else result\<lparr>recording := True,
                  applications := applications result @
                    [''Compositor de grabaci'' @ [CHR 0xC3, CHR 0xB3] @ ''n: '' @
                     take 50 process @ ''...'']\<rparr>)"

text \<open>A \<^verbatim>\<open>for\<close> loop over the rows that a command delivered; nothing when it failed.\<close>

definition forEachRow :: "('a \<Rightarrow> recording_result \<Rightarrow> recording_result) \<Rightarrow> 'a list option \<Rightarrow>
    recording_result \<Rightarrow> recording_result" where
  "forEachRow round rows result =
     (case rows of None \<Rightarrow> result | Some rs \<Rightarrow> fold round rs result)"

text \<open>
  On macOS and Linux the second command runs in the same \<^verbatim>\<open>try\<close> as the first: when
  \<^verbatim>\<open>ps\<close> fails, it is not run.
\<close>

definition checkScreenRecording1 :: "recording_env \<Rightarrow> recording_result" where
  "checkScreenRecording1 env =
     (let result = \<lparr>recording = False, applications = []\<rparr> in
      case sr_platform env of
        Win32 \<Rightarrow>
          forEachRow deviceRound (sr_devices env)
            (forEachRow serviceRound (sr_services env)
               (forEachRow tasklistRound (sr_tasklist env) result))
      | Darwin \<Rightarrow>
          (case sr_processes env of
             None \<Rightarrow> result
           | Some processes \<Rightarrow>
               forEachRow permissionRound (sr_permissions env) (fold processRound processes result))
      | Linux \<Rightarrow>
          (case sr_processes env of
             None \<Rightarrow> result
           | Some processes \<Rightarrow>
               forEachRow compositorRound (sr_compositors env) (fold processRound processes result)))"

text \<open>The invariant of the rounds of the first fork.\<close>

definition named_when_recording :: "recording_result \<Rightarrow> bool" where
  "named_when_recording r = (recording r \<longrightarrow> applications r \<noteq> [])"

subsection \<open>Second fork\<close>

definition screenRecordingApps :: "string list" where
  "screenRecordingApps =
     [''OBS Studio'', ''obs64.exe'', ''obs.exe'', ''obs-studio'',
      ''Bandicam'', ''bdcam.exe'', ''bandicam.exe'',
      ''Camtasia'', ''camtasia.exe'', ''camtasiastudio.exe'',
      ''Action!'', ''action.exe'', ''mirillis.exe'',
      ''Fraps'', ''fraps.exe'',
      ''Streamlabs OBS'', ''streamlabs-obs.exe'',
      ''XSplit'', ''xsplit.exe'', ''xsplitbroadcaster.exe'',
      ''DXtory'', ''dxtory.exe'',
      ''Nvidia ShadowPlay'', ''nvstreamsvc.exe'', ''nvspcaps64.exe'',
      ''AMD ReLive'', ''amdow.exe'', ''radeonoverlay'',
      ''Movavi Screen Recorder'', ''movavi_screencapturer.exe'',
      ''ScreenRec'', ''screenrec.exe'',
      ''ScreenCastify'', ''screencastify'',
      ''ScreenFlow'',
      ''FFmpeg'', ''ffmpeg.exe'',
      ''D3DGear'', ''d3dgear.exe'',
      ''Icecream Screen Recorder'', ''icecreamscreenrecorder.exe'',
      ''CamStudio'', ''camstudio.exe'',
      ''TinyTake'', ''tinytake.exe'',
      ''Screencast-O-Matic'', ''screencastomatic.exe'',
      ''Debut Video Capture'', ''debut.exe'',
      ''FlashBack Express'', ''flashback.exe'',
      ''Snagit'', ''snagit.exe'',
      ''ActivePresenter'', ''activepresenter.exe'',
      ''Apowersoft Screen Recorder'', ''apowersoftscreenrecorder.exe'',
      ''AceThinker Screen Grabber Pro'', ''acethinkerscreengrabber.exe'',
      ''iSpring Cam'', ''ispringcam.exe'',
      ''Screen Recorder Gold'', ''screenrecordergold.exe'',
      ''Any Video Recorder'', ''anyvideorecorder.exe'',
      ''Xbox Game Bar'', ''gamebar.exe'', ''xboxgamebar.exe'', ''gamebarft.exe'',
      ''Windows Game Recording'', ''xboxapp.exe'', ''gamerecording'',
      ''QuickTime Player'',
      ''Loom'', ''loom.exe'',
      ''Nimbus'', ''nimbus.exe'',
      ''Awesome Screenshot'',
      ''Screencastify'',
      ''ShareX'', ''sharex.exe'',
      ''Screen Capture'',
      ''Grabilla'', ''grabilla.exe'',
      ''screen recorder'', ''screenrecorder'',
      ''capture'', ''screen capture'', ''screencapture'',
      ''record'', ''recording'', ''grabber'',
      ''screengrab'', ''screen grab'']"

text \<open>
  What the commands of the second fork deliver; each command has its own \<^verbatim>\<open>.catch\<close> that
  turns a failure into empty output. A JSON field that is \<^verbatim>\<open>null\<close> is \<open>None\<close>.

  \<^item> \<open>sq_tasklist\<close>: the output of \<^verbatim>\<open>tasklist /fo csv /v\<close>;
  \<^item> \<open>sq_filter\<close>: the output of \<^verbatim>\<open>tasklist /FI "IMAGENAME eq app"\<close> for each application;
  \<^item> \<open>sq_services\<close>: the display names of the running services (\<open>None\<close>: the JSON does not
    parse);
  \<^item> \<open>sq_bgApps\<close>: process name and description of each process (\<open>None\<close>: the JSON does
    not parse);
  \<^item> \<open>sq_gameBar\<close>: whether \<^verbatim>\<open>AppCaptureEnabled\<close> is 1;
  \<^item> \<open>sq_ps\<close>: the output of \<^verbatim>\<open>ps -axo comm,pid\<close>.
\<close>

record recording_env2 =
  sq_platform :: platform
  sq_tasklist :: string
  sq_filter :: "string \<Rightarrow> string"
  sq_services :: "string option list option"
  sq_bgApps :: "(string option \<times> string option) list option"
  sq_gameBar :: bool
  sq_ps :: string

text \<open>The loops keep \<^verbatim>\<open>processOutput\<close> and \<^verbatim>\<open>detectedApps\<close>.\<close>

record detection =
  processOutput :: string
  detectedApps :: "string list"

text \<open>A value in a template string or a concatenation: \<^verbatim>\<open>null\<close> prints as its name.\<close>

definition js_str :: "string option \<Rightarrow> string" where
  "js_str v = (case v of None \<Rightarrow> ''null'' | Some s \<Rightarrow> s)"

text \<open>Truthiness of a string or \<^verbatim>\<open>null\<close>: the empty string counts as false.\<close>

definition truthy :: "string option \<Rightarrow> bool" where
  "truthy v = (case v of None \<Rightarrow> False | Some s \<Rightarrow> s \<noteq> [])"

definition filterRound :: "(string \<Rightarrow> string) \<Rightarrow> string \<Rightarrow> detection \<Rightarrow> detection" where
  "filterRound tasklistFor app d =
     (let stdout = tasklistFor app in
      if stdout \<noteq> [] \<and> js_includes stdout ''.exe'' \<and> \<not> js_includes stdout ''No tasks''
      then d\<lparr>detectedApps := detectedApps d @ [app]\<rparr>
      else d)"

definition serviceNameRound :: "string option \<Rightarrow> detection \<Rightarrow> detection" where
  "serviceNameRound displayName d =
     d\<lparr>processOutput := processOutput d @ js_str displayName @ [CHR 0x0A]\<rparr>"

text \<open>
  The inner loop over \<^verbatim>\<open>screenRecordingApps\<close> for one process. \<^verbatim>\<open>detectedApps.includes\<close>
  looks for the process name among the entries; \<^verbatim>\<open>null\<close> is never among them.
\<close>

definition bgAppMatch :: "string option \<times> string option \<Rightarrow> string \<Rightarrow> detection \<Rightarrow> detection" where
  "bgAppMatch app recordingApp d =
     (if (truthy (fst app) \<and>
          js_includes (toLowerCase (js_str (fst app))) (toLowerCase recordingApp)) \<or>
         (truthy (snd app) \<and>
          js_includes (toLowerCase (js_str (snd app))) (toLowerCase recordingApp))
      then (if \<not> (case fst app of None \<Rightarrow> False | Some n \<Rightarrow> n \<in> set (detectedApps d))
            then d\<lparr>detectedApps := detectedApps d @
                     [js_str (fst app) @
                      (if truthy (snd app) then '' ('' @ js_str (snd app) @ '')'' else [])]\<rparr>
            else d)
      else d)"

definition bgAppRound :: "string option \<times> string option \<Rightarrow> detection \<Rightarrow> detection" where
  "bgAppRound app d =
     fold (bgAppMatch app) screenRecordingApps
       (d\<lparr>processOutput := processOutput d @ js_str (fst app) @ '' - '' @
            (if truthy (snd app) then js_str (snd app) else []) @ [CHR 0x0A]\<rparr>)"

definition gameBarStep :: "bool \<Rightarrow> detection \<Rightarrow> detection" where
  "gameBarStep enabled d =
     (if enabled
      then d\<lparr>processOutput := processOutput d @ ''Xbox Game Bar - Capture Enabled'' @ [CHR 0x0A],
             detectedApps := detectedApps d @ [''Xbox Game Bar (habilitado para captura)'']\<rparr>
      else d)"

text \<open>\<^verbatim>\<open>line.trim()\<close> for the blanks that \<^verbatim>\<open>ps\<close> prints.\<close>

definition isBlank :: "char \<Rightarrow> bool" where
  "isBlank c = (c = CHR '' '' \<or> c = CHR 0x09 \<or> c = CHR 0x0A \<or> c = CHR 0x0D)"

definition trim :: "string \<Rightarrow> string" where
  "trim s = rev (dropWhile isBlank (rev (dropWhile isBlank s)))"

definition psLineMatch :: "string \<Rightarrow> string \<Rightarrow> detection \<Rightarrow> detection" where
  "psLineMatch line app d =
     (if js_includes (toLowerCase line) (toLowerCase app) then
        (let appName = hd (js_split (CHR '' '') (trim line)) in
         if appName \<notin> set (detectedApps d)
         then d\<lparr>detectedApps := detectedApps d @ [appName]\<rparr>
         else d)
      else d)"

definition psLineRound :: "string \<Rightarrow> detection \<Rightarrow> detection" where
  "psLineRound line d = fold (psLineMatch line) screenRecordingApps d"

text \<open>The search of the whole output when nothing was detected.\<close>

definition fallbackRound :: "string \<Rightarrow> detection \<Rightarrow> detection" where
  "fallbackRound app d =
     (if js_includes (toLowerCase (processOutput d)) (toLowerCase app) then
        (if app \<notin> set (detectedApps d)
         then d\<lparr>detectedApps := detectedApps d @ [app]\<rparr>
         else d)
      else d)"

definition detect2 :: "recording_env2 \<Rightarrow> detection" where
  "detect2 env =
     (case sq_platform env of
        Win32 \<Rightarrow>
          gameBarStep (sq_gameBar env)
            ((case sq_bgApps env of
                None \<Rightarrow> id
              | Some bgAppsList \<Rightarrow> fold bgAppRound bgAppsList)
               ((case sq_services env of
                   None \<Rightarrow> id
                 | Some serviceList \<Rightarrow> fold serviceNameRound serviceList)
                  (fold (filterRound (sq_filter env)) screenRecordingApps
                     \<lparr>processOutput = sq_tasklist env, detectedApps = []\<rparr>)))
      | _ \<Rightarrow>
          fold psLineRound (js_split (CHR 0x0A) (sq_ps env))
            \<lparr>processOutput = sq_ps env, detectedApps = []\<rparr>)"

text \<open>
  No step above throws, so the outer \<^verbatim>\<open>catch\<close> of the second fork, which returns
  \<^verbatim>\<open>{ recording: false, applications: [] }\<close>, is not reached.
\<close>

definition checkScreenRecording2 :: "recording_env2 \<Rightarrow> recording_result" where
  "checkScreenRecording2 env =
     (let d = detect2 env;
          d' = (if length (detectedApps d) = 0 then fold fallbackRound screenRecordingApps d else d)
      in \<lparr>recording = (length (detectedApps d') > 0), applications = detectedApps d'\<rparr>)"

section \<open>JAR finder\<close>

text \<open>
  The file system as the walk sees it: \<^verbatim>\<open>readdir\<close> and \<^verbatim>\<open>stat\<close> give \<open>None\<close> when they
  throw.
\<close>

record filesystem =
  fs_readdir :: "string \<Rightarrow> dirent list option"
  fs_stat :: "string \<Rightarrow> file_stats option"
  fs_existsSync :: "string \<Rightarrow> bool"

record jar_file =
  jf_name :: string
  jf_path :: string
  jf_size :: nat
  lastModified :: time_ms

subsection \<open>First fork\<close>

text \<open>The date range of the search; \<open>None\<close> is a bound that is not set.\<close>

record search_options =
  fechaInicio :: "time_ms option"
  fechaFin :: "time_ms option"

definition skipDirs1 :: "string list" where
  "skipDirs1 =
     [''Windows'', ''Program Files'', ''Program Files (x86)'', ''ProgramData'',
      ''System Volume Information'', ''$Recycle.Bin'', ''node_modules'',
      ''AppData'' @ [CHR 0x5C] @ ''Local'' @ [CHR 0x5C] @ ''Temp'', ''Recovery'', ''Config.Msi'',
      ''$WINDOWS.~BT'', ''$WinREAgent'', ''Windows.old'', ''DriverStore'', ''Temp'', ''tmp'']"

definition shouldSkipDirectory1 :: "string \<Rightarrow> bool" where
  "shouldSkipDirectory1 directory =
     (let normalizedPath =
            toLowerCase (map (\<lambda>c. if c = CHR 0x5C then CHR ''/'' else c) directory)
      in list_ex (\<lambda>dir. js_includes normalizedPath (toLowerCase dir)) skipDirs1)"

text \<open>
  Whether the date range leaves a file out (the two \<^verbatim>\<open>continue\<close> statements).
\<close>

definition outsideRange :: "search_options \<Rightarrow> time_ms \<Rightarrow> bool" where
  "outsideRange options fileDate =
     ((case fechaInicio options of None \<Rightarrow> False | Some startDate \<Rightarrow> fileDate < startDate) \<or>
      (case fechaFin options of None \<Rightarrow> False | Some endDate \<Rightarrow> fileDate > endDate))"

function searchJarFilesRecursively1 ::
  "filesystem \<Rightarrow> search_options \<Rightarrow> string \<Rightarrow> jar_file list \<Rightarrow> nat \<Rightarrow> jar_file list" where
  "searchJarFilesRecursively1 F options directory result depth =
     (if depth > 15 then result
      else if shouldSkipDirectory1 directory then result
      else (case fs_readdir F directory of
              None \<Rightarrow> result
            | Some items \<Rightarrow>
                fold (\<lambda>item res.
                        if d_isDirectory item
                        then searchJarFilesRecursively1 F options
                               (path_join directory (d_name item)) res (depth + 1)
                        else if endsWith (toLowerCase (d_name item)) ''.jar''
                        then (case fs_stat F (path_join directory (d_name item)) of
                                None \<Rightarrow> res
                              | Some stats \<Rightarrow>
                                  if outsideRange options (st_mtime stats) then res
                                  else res @ [\<lparr>jf_name = d_name item,
                                               jf_path = path_join directory (d_name item),
                                               jf_size = st_size stats,
                                               lastModified = st_mtime stats\<rparr>])
                        else res)
                     items result))"
  by pat_completeness auto
termination
  by (relation "measure (\<lambda>(F, options, directory, result, depth). 16 - depth)") auto

text \<open>
  \<^verbatim>\<open>findAllJarFiles\<close> of the first fork over the drives that \<^verbatim>\<open>getSystemDrives\<close> returns.
\<close>

definition collectJars1 :: "filesystem \<Rightarrow> string list \<Rightarrow> search_options \<Rightarrow> jar_file list" where
  "collectJars1 F drives options =
     fold (\<lambda>drive result. searchJarFilesRecursively1 F options drive result 0) drives []"

definition findAllJarFiles1 :: "filesystem \<Rightarrow> string list \<Rightarrow> search_options \<Rightarrow> jar_file list" where
  "findAllJarFiles1 F drives options =
     js_sort (by_key_desc lastModified) (collectJars1 F drives options)"

subsection \<open>Second fork\<close>

definition skipDirs2 :: "string list" where
  "skipDirs2 =
     [''Windows'', ''Program Files'', ''Program Files (x86)'', ''ProgramData'',
      ''System Volume Information'', ''$Recycle.Bin'', ''node_modules'']"

definition shouldSkipDirectory2 :: "string \<Rightarrow> bool" where
  "shouldSkipDirectory2 directory = list_ex (\<lambda>dir. js_includes directory dir) skipDirs2"

function searchJarFilesRecursively2 ::
  "filesystem \<Rightarrow> string \<Rightarrow> jar_file list \<Rightarrow> nat \<Rightarrow> jar_file list" where
  "searchJarFilesRecursively2 F directory result depth =
     (if depth > 10 then result
      else (case fs_readdir F directory of
              None \<Rightarrow> result
            | Some files \<Rightarrow>
                fold (\<lambda>entry res.
                        if startsWith (d_name entry) ''.'' then res
                        else (case fs_stat F (path_join directory (d_name entry)) of
                                None \<Rightarrow> res
                              | Some stats \<Rightarrow>
                                  if st_isDirectory stats then
                                    (if \<not> shouldSkipDirectory2 (path_join directory (d_name entry))
                                     then searchJarFilesRecursively2 F
                                            (path_join directory (d_name entry)) res (depth + 1)
                                     else res)
                                  else if endsWith (d_name entry) ''.jar''
                                  then res @ [\<lparr>jf_name = d_name entry,
                                               jf_path = path_join directory (d_name entry),
                                               jf_size = st_size stats,
                                               lastModified = st_mtime stats\<rparr>]
                                  else res))
                     files result))"
  by pat_completeness auto
termination
  by (relation "measure (\<lambda>(F, directory, result, depth). 11 - depth)") auto

definition commonLocations :: "string \<Rightarrow> string list" where
  "commonLocations userHome =
     [path_join userHome ''Downloads'',
      path_join userHome ''Desktop'',
      path_join userHome ''Documents'',
      path_join (path_join (path_join userHome ''AppData'') ''Roaming'') ''.minecraft'',
      path_join (path_join (path_join (path_join userHome ''AppData'') ''Roaming'') ''.minecraft'')
        ''mods'',
      path_join (path_join (path_join (path_join userHome ''AppData'') ''Roaming'') ''.minecraft'')
        ''versions'',
      path_join (path_join (path_join (path_join userHome ''AppData'') ''Roaming'') ''.minecraft'')
        ''libraries'']"

text \<open>
  \<^verbatim>\<open>findAllJarFiles\<close> of the second fork, with \<open>driveLetters\<close> for the drives that exist
  (the root directory outside Windows). The function returns \<^verbatim>\<open>jarFiles\<close> as the walks
  have filled it.
\<close>

definition findAllJarFiles2 :: "filesystem \<Rightarrow> string \<Rightarrow> string list \<Rightarrow> jar_file list" where
  "findAllJarFiles2 F userHome driveLetters =
     (let jarFiles =
            fold (\<lambda>location res.
                    if fs_existsSync F location
                    then searchJarFilesRecursively2 F location res 0 else res)
                 (commonLocations userHome) []
      in if length jarFiles < 10
         then fold (\<lambda>drive res. searchJarFilesRecursively2 F drive res 0) driveLetters jarFiles
         else jarFiles)"

section \<open>IPC handlers of the main process\<close>

text \<open>
  A call of a function of \<^verbatim>\<open>systemUtils\<close> returns a value (\<open>Inr\<close>) or throws (\<open>Inl\<close>).
  Every \<^verbatim>\<open>throw\<close> of the module throws an \<^verbatim>\<open>Error\<close> object, either a new one or one that a
  Node API has thrown, so that the thrown value has a \<^verbatim>\<open>message\<close> string. The module is a
  map from the names of its exports to functions on argument lists; calling a name that
  is not exported throws a \<^verbatim>\<open>TypeError\<close>.
\<close>

type_synonym 'v js_function = "'v list \<Rightarrow> js_error + 'v"

type_synonym 'v js_module = "string \<Rightarrow> 'v js_function option"

definition message :: "js_error \<Rightarrow> string" where
  "message e = (case e of Error m \<Rightarrow> m)"

definition callExport :: "'v js_module \<Rightarrow> string \<Rightarrow> 'v list \<Rightarrow> js_error + 'v" where
  "callExport module name args =
     (case module name of
        None \<Rightarrow> Inl (Error (''systemUtils.'' @ name @ '' is not a function''))
      | Some f \<Rightarrow> f args)"

text \<open>
  What a handler resolves to: the value of the probe, the object \<^verbatim>\<open>{ error: message }\<close>,
  or one of the two answers of the export handler.
\<close>

datatype 'v reply =
    Value 'v
  | ErrorObject string
  | ExportSuccess string
  | ExportCanceled

text \<open>
  The body shared by the fifteen probe handlers:
  \<^verbatim>\<open>try { return await systemUtils.f(args); } catch (error) { return { error: error.message }; }\<close>.
  The result is the outcome of the handler's promise: \<open>Inl\<close> would be a rejection, which
  \<^verbatim>\<open>ipcRenderer.invoke\<close> would raise in the GUI.
\<close>

definition probeHandler :: "'v js_module \<Rightarrow> string \<Rightarrow> 'v list \<Rightarrow> js_error + 'v reply" where
  "probeHandler systemUtils name args =
     (case callExport systemUtils name args of
        Inr result \<Rightarrow> Inr (Value result)
      | Inl error \<Rightarrow> Inr (ErrorObject (message error)))"

text \<open>
  The main process: the module, the save dialog (the chosen path; \<open>None\<close> or the empty
  string when the user cancels) and \<^verbatim>\<open>fs.promises.writeFile\<close> of the serialised data
  (\<open>Some\<close> error when it throws).
\<close>

record 'v main_process =
  systemUtils :: "'v js_module"
  showSaveDialog :: "js_error + string option"
  writeFile :: "string \<Rightarrow> 'v \<Rightarrow> js_error option"

definition exportHandler :: "'v main_process \<Rightarrow> 'v \<Rightarrow> js_error + 'v reply" where
  "exportHandler main data =
     (case showSaveDialog main of
        Inl error \<Rightarrow> Inr (ErrorObject (message error))
      | Inr filePath \<Rightarrow>
          if truthy filePath then
            (case writeFile main (js_str filePath) data of
               Some error \<Rightarrow> Inr (ErrorObject (message error))
             | None \<Rightarrow> Inr (ExportSuccess (js_str filePath)))
          else Inr ExportCanceled)"

text \<open>
  The handlers that \<^verbatim>\<open>ipcMain.handle\<close> registers, by channel, in the order of the source.
  A handler takes the argument that \<^verbatim>\<open>invoke\<close> sends after the channel.
\<close>

definition ipcHandlers :: "'v main_process \<Rightarrow> (string \<times> ('v \<Rightarrow> js_error + 'v reply)) list" where
  "ipcHandlers main =
     [(''find-jar-files'', \<lambda>_. probeHandler (systemUtils main) ''findAllJarFiles'' []),
      (''check-extension-changes'',
         \<lambda>_. probeHandler (systemUtils main) ''checkFileExtensionChanges'' []),
      (''get-deleted-files'',
         \<lambda>minutes. probeHandler (systemUtils main) ''getRecentlyDeletedFiles'' [minutes]),
      (''get-executed-jars'',
         \<lambda>hours. probeHandler (systemUtils main) ''getRecentlyExecutedJars'' [hours]),
      (''check-usb-disconnection'',
         \<lambda>_. probeHandler (systemUtils main) ''checkUSBDisconnection'' []),
      (''check-screen-recording'',
         \<lambda>_. probeHandler (systemUtils main) ''checkScreenRecording'' []),
      (''open-browser-history'', \<lambda>_. probeHandler (systemUtils main) ''openBrowserHistory'' []),
      (''detect-browsers'', \<lambda>_. probeHandler (systemUtils main) ''detectBrowsers'' []),
      (''detect-minecraft-cheats'',
         \<lambda>_. probeHandler (systemUtils main) ''detectMinecraftCheats'' []),
      (''detect-stopped-services'',
         \<lambda>_. probeHandler (systemUtils main) ''detectStoppedServices'' []),
      (''get-folder-history'', \<lambda>_. probeHandler (systemUtils main) ''getFolderHistory'' []),
      (''get-execution-history'',
         \<lambda>hours. probeHandler (systemUtils main) ''getCompleteExecutionHistory'' [hours]),
      (''open-minecraft-files'', \<lambda>_. probeHandler (systemUtils main) ''openMinecraftFiles'' []),
      (''open-file-location'',
         \<lambda>filePath. probeHandler (systemUtils main) ''openFileLocation'' [filePath]),
      (''get-command-history'', \<lambda>_. probeHandler (systemUtils main) ''getCommandHistory'' []),
      (''export-results'', exportHandler main)]"

text \<open>The probe that a channel calls, and whether it passes the argument on.\<close>

definition probeOfChannel :: "(string \<times> string \<times> bool) list" where
  "probeOfChannel =
     [(''find-jar-files'', ''findAllJarFiles'', False),
      (''check-extension-changes'', ''checkFileExtensionChanges'', False),
      (''get-deleted-files'', ''getRecentlyDeletedFiles'', True),
      (''get-executed-jars'', ''getRecentlyExecutedJars'', True),
      (''check-usb-disconnection'', ''checkUSBDisconnection'', False),
      (''check-screen-recording'', ''checkScreenRecording'', False),
      (''open-browser-history'', ''openBrowserHistory'', False),
      (''detect-browsers'', ''detectBrowsers'', False),
      (''detect-minecraft-cheats'', ''detectMinecraftCheats'', False),
      (''detect-stopped-services'', ''detectStoppedServices'', False),
      (''get-folder-history'', ''getFolderHistory'', False),
      (''get-execution-history'', ''getCompleteExecutionHistory'', True),
      (''open-minecraft-files'', ''openMinecraftFiles'', False),
      (''open-file-location'', ''openFileLocation'', True),
      (''get-command-history'', ''getCommandHistory'', False)]"

section \<open>Browser-history inspection\<close>

text \<open>
  The temporary directory during the inspection: the temporary copies that exist, and the
  database files that the SQL queries were pointed at, in order.
\<close>

record temp_state =
  tempFiles :: "string set"
  queried :: "string list"

text \<open>
  What the operating system does in one round: the digits of \<^verbatim>\<open>Date.now()\<close>, whether
  \<^verbatim>\<open>copyFileSync\<close> works, the output of the PowerShell command (\<open>None\<close> when the command
  fails and the promise is rejected), and whether \<^verbatim>\<open>unlinkSync\<close> works.
\<close>

record round_io =
  io_now :: string
  io_copyOk :: bool
  io_stdout :: "string option"
  io_unlinkOk :: bool

text \<open>
  First fork, \<^verbatim>\<open>checkBrowserHistoryFiles\<close>: one round of the loop over the history files
  on Windows, as far as the temporary copy goes. The \<^verbatim>\<open>catch\<close> of the round only logs.
\<close>

definition historyRound1 :: "string \<Rightarrow> string \<Rightarrow> round_io \<Rightarrow> temp_state \<Rightarrow> temp_state" where
  "historyRound1 tempDir historyPath io st =
     (let tempHistoryPath = path_join tempDir (''history_'' @ io_now io @ ''.db'') in
      if \<not> io_copyOk io then st
      else
        (let copied = st\<lparr>tempFiles := insert tempHistoryPath (tempFiles st)\<rparr>;
             asked = copied\<lparr>queried := queried copied @ [tempHistoryPath]\<rparr>
         in case io_stdout io of
              None \<Rightarrow> asked
            | Some stdout \<Rightarrow>
                if io_unlinkOk io
                then asked\<lparr>tempFiles := tempFiles asked - {tempHistoryPath}\<rparr>
                else asked))"

fun historyLoop1 :: "string \<Rightarrow> (string \<times> round_io) list \<Rightarrow> temp_state \<Rightarrow> temp_state" where
  "historyLoop1 tempDir [] st = st"
| "historyLoop1 tempDir ((historyPath, io) # rest) st =
     historyLoop1 tempDir rest (historyRound1 tempDir historyPath io st)"

text \<open>
  Second fork, \<^verbatim>\<open>detectMinecraftCheats\<close>: the round for one browser, with the fixed name of
  its temporary copy. The command has its own \<^verbatim>\<open>.catch\<close>, and parsing has its own
  \<^verbatim>\<open>try\<close>, so that \<^verbatim>\<open>unlinkSync\<close> is reached whenever the copy was made.
\<close>

definition historyRound2 :: "string \<Rightarrow> string \<Rightarrow> round_io \<Rightarrow> temp_state \<Rightarrow> temp_state" where
  "historyRound2 tempDir tempName io st =
     (let tempHistoryPath = path_join tempDir tempName in
      if \<not> io_copyOk io then st
      else
        (let copied = st\<lparr>tempFiles := insert tempHistoryPath (tempFiles st)\<rparr>;
             asked = copied\<lparr>queried := queried copied @ [tempHistoryPath]\<rparr>
         in if io_unlinkOk io
            then asked\<lparr>tempFiles := tempFiles asked - {tempHistoryPath}\<rparr>
            else asked))"

section \<open>File-system access of the exported operations\<close>

text \<open>
  \<^verbatim>\<open>registerSelfDestruct\<close> of the first fork, on the set of the files that exist, with the
  path of the executable, the temporary directory and the digits of \<^verbatim>\<open>Date.now()\<close>. It
  writes a batch script into the temporary directory and starts it detached; the script
  waits for the program to end and then deletes the executable and itself.
\<close>

record self_destruct =
  sd_files :: "string set"
  sd_spawned :: "string list"
  sd_scriptDeletes :: "string list"

definition registerSelfDestruct1 :: "string \<Rightarrow> string \<Rightarrow> string \<Rightarrow> string set \<Rightarrow> self_destruct" where
  "registerSelfDestruct1 appPath tmpdir now files =
     (let tempBatPath = path_join tmpdir (''delete_'' @ now @ ''.bat'')
      in \<lparr>sd_files = insert tempBatPath files,
          sd_spawned = [''cmd'', ''/c'', tempBatPath],
          sd_scriptDeletes = [appPath, tempBatPath]\<rparr>)"

text \<open>
  For the module as a whole, every top-level function of the two forks is listed with
  the calls of the \<^verbatim>\<open>fs\<close> API that its body makes (\<^verbatim>\<open>fs.promises.f\<close>, \<^verbatim>\<open>fs.f\<close> and the
  promisified \<^verbatim>\<open>readdirPromise\<close> and \<^verbatim>\<open>statPromise\<close> under the name \<open>f\<close>) and with the
  functions of the module that it calls. Two entries stand for what a function does to
  files through a child process: \<open>execToFile\<close> for a shell command whose output is
  redirected into a file (\<^verbatim>\<open>doskey /history > tempHistoryPath\<close>), and \<open>spawn\<close> for the
  start of the batch script above. No other command line of the module writes, creates
  or deletes a file. \<open>minecraftCheatsDatabase\<close>, an export of the second fork, is a table
  and not a function.
\<close>

datatype fs_call =
    existsSync | readdir | readdirSync | stat | readFile | readFileSync
  | copyFileSync | execToFile | writeFileSync | unlink | unlinkSync | spawn

datatype fs_effect = ReadOnly | Creates | Writes | Deletes

fun fsEffect :: "fs_call \<Rightarrow> fs_effect" where
  "fsEffect copyFileSync = Creates"
| "fsEffect execToFile = Creates"
| "fsEffect writeFileSync = Writes"
| "fsEffect unlink = Deletes"
| "fsEffect unlinkSync = Deletes"
| "fsEffect spawn = Deletes"
| "fsEffect _ = ReadOnly"

datatype fn =
    findAllJarFiles | searchJarFilesRecursively | shouldSkipDirectory | getSystemDrives
  | checkFileExtensionChanges | findRecentlyModifiedFiles | getOriginalNameGuess
  | getRecentlyDeletedFiles | searchRecycleBin | searchDeletedFiles | searchLinuxTrash
  | tryUsingDataRecoveryTools | getFileOperationsFromEventLog | getRecentlyExecutedJars
  | getJarsFromRegistry | getJavaLogs | checkUSBDisconnection | checkScreenRecording
  | detectBrowsers | getDefaultBrowser | openBrowserHistory | openSpecificBrowserHistory
  | detectMinecraftCheats | checkBrowserHistoryFiles | checkMinecraftModFolders
  | detectSuspiciousProcesses | detectStoppedServices | getFolderHistory
  | getCompleteExecutionHistory | openMinecraftFiles | openFileLocation
  | getCommandHistory | registerSelfDestruct | analyzeProcesses | scanMinecraftMods
  | detectInjections | minecraftCheatsDatabase

fun fsCalls1 :: "fn \<Rightarrow> fs_call list" where
  "fsCalls1 searchJarFilesRecursively = [readdir, stat]"
| "fsCalls1 getSystemDrives = [readdir]"
| "fsCalls1 checkFileExtensionChanges = [existsSync]"
| "fsCalls1 findRecentlyModifiedFiles = [readdir, stat]"
| "fsCalls1 searchRecycleBin = [existsSync, readdir, stat, readFile]"
| "fsCalls1 searchDeletedFiles = [existsSync, readdir, stat]"
| "fsCalls1 searchLinuxTrash = [existsSync, readdir, readFile]"
| "fsCalls1 getRecentlyExecutedJars = [existsSync, stat]"
| "fsCalls1 getJavaLogs = [existsSync, readdir, stat, readFile]"
| "fsCalls1 detectBrowsers = [existsSync, readdirSync]"
| "fsCalls1 getDefaultBrowser = [existsSync]"
| "fsCalls1 checkBrowserHistoryFiles = [existsSync, readdirSync, copyFileSync, unlinkSync]"
| "fsCalls1 checkMinecraftModFolders = [existsSync, readdir, stat]"
| "fsCalls1 getFolderHistory = [existsSync, readdir, stat, readFile]"
| "fsCalls1 getCompleteExecutionHistory = [existsSync, readdir, stat, readFile]"
| "fsCalls1 openMinecraftFiles = [existsSync, stat, readdir, readFile]"
| "fsCalls1 openFileLocation = [existsSync, stat]"
| "fsCalls1 getCommandHistory = [existsSync, readFile, stat, unlink, execToFile]"
| "fsCalls1 registerSelfDestruct = [writeFileSync, spawn]"
| "fsCalls1 scanMinecraftMods = [existsSync, readdir, stat]"
| "fsCalls1 detectInjections = [existsSync, readdir, readFile]"
| "fsCalls1 _ = []"

fun callees1 :: "fn \<Rightarrow> fn list" where
  "callees1 findAllJarFiles =
     [getSystemDrives, searchJarFilesRecursively]"
| "callees1 searchJarFilesRecursively =
     [shouldSkipDirectory, searchJarFilesRecursively]"
| "callees1 checkFileExtensionChanges =
     [findRecentlyModifiedFiles]"
| "callees1 findRecentlyModifiedFiles =
     [shouldSkipDirectory, findRecentlyModifiedFiles, getOriginalNameGuess]"
| "callees1 getRecentlyDeletedFiles =
     [searchRecycleBin, getFileOperationsFromEventLog, searchDeletedFiles,
      searchLinuxTrash, tryUsingDataRecoveryTools]"
| "callees1 searchDeletedFiles =
     [searchDeletedFiles]"
| "callees1 getRecentlyExecutedJars =
     [getJarsFromRegistry, getCompleteExecutionHistory, getJavaLogs]"
| "callees1 detectBrowsers =
     [getDefaultBrowser]"
| "callees1 openBrowserHistory =
     [detectBrowsers, openSpecificBrowserHistory]"
| "callees1 detectMinecraftCheats =
     [checkBrowserHistoryFiles, checkMinecraftModFolders, detectSuspiciousProcesses]"
| "callees1 _ = []"

definition systemUtils1_exports :: "fn list" where
  "systemUtils1_exports =
     [findAllJarFiles, checkFileExtensionChanges, getRecentlyDeletedFiles,
      getRecentlyExecutedJars, checkUSBDisconnection, checkScreenRecording,
      openBrowserHistory, detectBrowsers, detectMinecraftCheats, detectStoppedServices,
      getFolderHistory, getCompleteExecutionHistory, openMinecraftFiles,
      openFileLocation, getCommandHistory, registerSelfDestruct, analyzeProcesses,
      scanMinecraftMods, detectInjections]"

fun fsCalls2 :: "fn \<Rightarrow> fs_call list" where
  "fsCalls2 findAllJarFiles = [existsSync]"
| "fsCalls2 searchJarFilesRecursively = [readdir, stat]"
| "fsCalls2 findRecentlyModifiedFiles = [readdir, stat]"
| "fsCalls2 searchRecycleBin = [readdir, stat]"
| "fsCalls2 searchDeletedFiles = [readdir, stat]"
| "fsCalls2 searchLinuxTrash = [readdir, stat, existsSync, readFileSync]"
| "fsCalls2 getRecentlyExecutedJars = [existsSync, readdir, stat]"
| "fsCalls2 detectBrowsers = [existsSync]"
| "fsCalls2 openSpecificBrowserHistory = [existsSync]"
| "fsCalls2 detectMinecraftCheats = [existsSync, copyFileSync, unlinkSync, readdir]"
| "fsCalls2 getFolderHistory = [existsSync, stat, readdir]"
| "fsCalls2 openMinecraftFiles = [existsSync, stat, readdir, readFileSync]"
| "fsCalls2 openFileLocation = [existsSync]"
| "fsCalls2 getCommandHistory = [existsSync, readFileSync, readdir]"
| "fsCalls2 _ = []"

fun callees2 :: "fn \<Rightarrow> fn list" where
  "callees2 findAllJarFiles =
     [searchJarFilesRecursively]"
| "callees2 searchJarFilesRecursively =
     [shouldSkipDirectory, searchJarFilesRecursively]"
| "callees2 checkFileExtensionChanges =
     [findRecentlyModifiedFiles, getOriginalNameGuess]"
| "callees2 findRecentlyModifiedFiles =
     [findRecentlyModifiedFiles]"
| "callees2 getRecentlyDeletedFiles =
     [searchRecycleBin, searchDeletedFiles, searchLinuxTrash, tryUsingDataRecoveryTools]"
| "callees2 searchRecycleBin =
     [searchRecycleBin]"
| "callees2 searchDeletedFiles =
     [searchDeletedFiles]"
| "callees2 openBrowserHistory =
     [detectBrowsers, openSpecificBrowserHistory]"
| "callees2 _ = []"

definition systemUtils2_exports :: "fn list" where
  "systemUtils2_exports =
     [findAllJarFiles, checkFileExtensionChanges, getRecentlyDeletedFiles,
      getRecentlyExecutedJars, checkUSBDisconnection, checkScreenRecording,
      openBrowserHistory, detectBrowsers, detectMinecraftCheats, detectStoppedServices,
      getFolderHistory, getCompleteExecutionHistory, openMinecraftFiles,
      openFileLocation, getCommandHistory, minecraftCheatsDatabase]"

text \<open>The functions reached from \<open>fns\<close> through at most \<open>n\<close> calls.\<close>

fun reachable :: "(fn \<Rightarrow> fn list) \<Rightarrow> nat \<Rightarrow> fn list \<Rightarrow> fn list" where
  "reachable callees 0 fns = fns"
| "reachable callees (Suc n) fns =
     reachable callees n (remdups (fns @ concat (map callees fns)))"

text \<open>No chain of calls between different functions of the module is longer than three.\<close>

definition callDepth :: nat where
  "callDepth = 3"

definition closedUnderCalls :: "(fn \<Rightarrow> fn list) \<Rightarrow> fn list \<Rightarrow> bool" where
  "closedUnderCalls callees fns =
     list_all (\<lambda>f. list_all (\<lambda>g. g \<in> set fns) (callees f)) fns"

text \<open>
  The calls that change the file system among the calls of a function and of the
  functions that it reaches.
\<close>

definition mutatingCalls :: "(fn \<Rightarrow> fs_call list) \<Rightarrow> (fn \<Rightarrow> fn list) \<Rightarrow> fn \<Rightarrow> fs_call list" where
  "mutatingCalls fsCalls callees f =
     filter (\<lambda>call. fsEffect call \<noteq> ReadOnly)
       (concat (map fsCalls (reachable callees callDepth [f])))"

section \<open>Sample inputs\<close>

text \<open>
  A module whose \<^verbatim>\<open>findAllJarFiles\<close> throws and whose \<^verbatim>\<open>detectBrowsers\<close> returns, on
  values that are strings.
\<close>

definition sampleModule :: "string js_module" where
  "sampleModule =
     map_of [(''findAllJarFiles'', \<lambda>args. Inl (Error ''EACCES: permission denied'')),
             (''detectBrowsers'', \<lambda>args. Inr ''[]'')]"

definition sampleMain :: "string main_process" where
  "sampleMain =
     \<lparr>systemUtils = sampleModule, showSaveDialog = Inr None, writeFile = (\<lambda>p d. None)\<rparr>"

text \<open>
  One Chrome history file on Windows: the copy works, the PowerShell command fails.
\<close>

definition sampleChromeHistory :: string where
  "sampleChromeHistory = ''C:/Users/u/AppData/Local/Google/Chrome/User Data/Default/History''"

definition sampleFailedQuery :: round_io where
  "sampleFailedQuery =
     \<lparr>io_now = ''1700000000000'', io_copyOk = True, io_stdout = None, io_unlinkOk = True\<rparr>"

definition emptyTemp :: temp_state where
  "emptyTemp = \<lparr>tempFiles = {}, queried = []\<rparr>"

text \<open>
  A disk with the home directory \<^verbatim>\<open>/home/u\<close>, whose \<^verbatim>\<open>Downloads\<close> folder holds an older and
  a newer JAR file, listed in that order.
\<close>

definition sampleDir :: "string \<Rightarrow> dirent" where
  "sampleDir n = \<lparr>d_name = n, d_isFile = False, d_isDirectory = True\<rparr>"

definition sampleDirStats :: file_stats where
  "sampleDirStats = \<lparr>st_size = 4096, st_mtime = 50, st_isDirectory = True\<rparr>"

definition sampleFilesystem :: filesystem where
  "sampleFilesystem =
     \<lparr>fs_readdir = map_of
        [(''/'', [sampleDir ''home'']),
         (''/home'', [sampleDir ''u'']),
         (''/home/u'', [sampleDir ''Downloads'']),
         (''/home/u/Downloads'',
          [\<lparr>d_name = ''old.jar'', d_isFile = True, d_isDirectory = False\<rparr>,
           \<lparr>d_name = ''new.jar'', d_isFile = True, d_isDirectory = False\<rparr>])],
      fs_stat = map_of
        [(''/home'', sampleDirStats),
         (''/home/u'', sampleDirStats),
         (''/home/u/Downloads'', sampleDirStats),
         (''/home/u/Downloads/old.jar'', \<lparr>st_size = 10, st_mtime = 100, st_isDirectory = False\<rparr>),
         (''/home/u/Downloads/new.jar'', \<lparr>st_size = 20, st_mtime = 200, st_isDirectory = False\<rparr>)],
      fs_existsSync = (\<lambda>p. p = ''/home/u/Downloads'')\<rparr>"

definition noOptions :: search_options where
  "noOptions = \<lparr>fechaInicio = None, fechaFin = None\<rparr>"

text \<open>A Linux machine that runs \<^verbatim>\<open>ffmpeg\<close> with \<^verbatim>\<open>x11grab\<close>.\<close>

definition sampleRecordingEnv :: recording_env where
  "sampleRecordingEnv =
     \<lparr>sr_platform = Linux, sr_tasklist = None, sr_services = None, sr_devices = None,
      sr_processes = Some [''bash'', ''ffmpeg''], sr_permissions = None,
      sr_compositors = Some [''ffmpeg -f x11grab -i :0 out.mkv'']\<rparr>"

text \<open>A Windows machine with a capture card that is not a camera.\<close>

definition sampleCaptureCardEnv :: recording_env where
  "sampleCaptureCardEnv =
     \<lparr>sr_platform = Win32, sr_tasklist = Some [], sr_services = Some [],
      sr_devices = Some [Some ''Game Capture HD60''], sr_processes = None,
      sr_permissions = None, sr_compositors = None\<rparr>"

definition sampleRecordingEnv2 :: recording_env2 where
  "sampleRecordingEnv2 =
     \<lparr>sq_platform = Linux, sq_tasklist = [], sq_filter = (\<lambda>app. []), sq_services = None,
      sq_bgApps = None, sq_gameBar = False,
      sq_ps = ''COMMAND PID'' @ [CHR 0x0A] @ ''ffmpeg 4242'' @ [CHR 0x0A]\<rparr>"










text \<open>Three findings in a Linux trash folder; the first and the third share a time.\<close>

definition sampleTrash :: "deleted_file list" where
  "sampleTrash =
     [\<lparr>df_name = ''a.txt'', df_path = ''/home/u/a.txt'', deletedTime = Some 5,
       operation = None\<rparr>,
      \<lparr>df_name = ''b.txt'', df_path = ''/home/u/b.txt'', deletedTime = Some 7,
       operation = None\<rparr>,
      \<lparr>df_name = ''c.txt'', df_path = ''/home/u/c.txt'', deletedTime = Some 5,
       operation = None\<rparr>]"

definition sampleDeletedEnv :: deleted_env where
  "sampleDeletedEnv =
     \<lparr>de_platform = Linux, de_userprofile = None, de_recycleBin = [], de_eventLog = None,
      de_trash = [], de_linuxTrash = sampleTrash\<rparr>"

text \<open>
  A Windows machine with two files in the recycle bin and one deletion in the event log,
  whose time PowerShell has printed in a form that \<^verbatim>\<open>new Date\<close> does not read.
\<close>

definition sampleOlderFile :: deleted_file where
  "sampleOlderFile =
     \<lparr>df_name = ''$RA.jar'', df_path = ''C:/Users/u/$Recycle.Bin/S-1/$RA.jar'',
      deletedTime = Some 5, operation = None\<rparr>"

definition sampleNewerFile :: deleted_file where
  "sampleNewerFile =
     \<lparr>df_name = ''$RB.jar'', df_path = ''C:/Users/u/$Recycle.Bin/S-1/$RB.jar'',
      deletedTime = Some 7, operation = None\<rparr>"

definition sampleUndatedEvent :: deleted_file where
  "sampleUndatedEvent =
     \<lparr>df_name = ''c.jar'', df_path = ''C:/Users/u/Desktop/c.jar'',
      deletedTime = None, operation = Some ''delete''\<rparr>"

definition sampleUndatedEventEnv :: deleted_env where
  "sampleUndatedEventEnv =
     \<lparr>de_platform = Win32, de_userprofile = Some ''C:/Users/u'',
      de_recycleBin = [sampleOlderFile, sampleNewerFile],
      de_eventLog = Some [sampleUndatedEvent], de_trash = [], de_linuxTrash = []\<rparr>"


text \<open>Two executions of the same JAR whose paths differ by letter case only.\<close>

definition sampleJarLower :: executed_jar where
  "sampleJarLower =
     \<lparr>ej_name = ''a.jar'', ej_path = ''C:/mods/a.jar'', startTime = TimeNumber 9,
      ej_source = ''Process List''\<rparr>"

definition sampleJarUpper :: executed_jar where
  "sampleJarUpper =
     \<lparr>ej_name = ''A.jar'', ej_path = ''C:/Mods/A.jar'', startTime = TimeNumber 4,
      ej_source = ''Prefetch''\<rparr>"

definition sampleExecutedEnv :: executed_env where
  "sampleExecutedEnv =
     \<lparr>ee_platform = Linux, ee_registry = None,
      ee_history = [sampleJarLower, sampleJarUpper], ee_javaLogs = Some [],
      ee_executedJars = [sampleJarLower, sampleJarUpper]\<rparr>"

text \<open>A date parser that rejects every string.\<close>

definition noDateParser :: "string \<Rightarrow> time_ms option" where
  "noDateParser s = None"

section \<open>Lower-casing\<close>

lemma toLowerCase_char_code:
  "toLowerCase_char c =
     (let code = (of_char c :: nat)
      in if 65 \<le> code \<and> code \<le> 90 then char_of (code + 32) else c)"
proof (cases c)
  case (Char b0 b1 b2 b3 b4 b5 b6 b7)
  show ?thesis
    unfolding Char
    by (cases b0; cases b1; cases b2; cases b3; cases b4; cases b5; cases b6; cases b7;
        simp add: Let_def char_of_def bit_0)
qed

lemma toLowerCase_letters:
  "toLowerCase ''ABCDEFGHIJKLMNOPQRSTUVWXYZ'' = ''abcdefghijklmnopqrstuvwxyz''"
  by code_simp

section \<open>Properties of the sort\<close>

lemma set_js_insert: "set (js_insert cmp x ys) = insert x (set ys)"
  by (induction ys) auto

lemma mset_js_insert: "mset (js_insert cmp x ys) = add_mset x (mset ys)"
  by (induction ys) auto

lemma mset_js_sort: "mset (js_sort cmp xs) = mset xs"
  by (induction xs) (simp_all add: js_sort_def mset_js_insert)

lemma sorted_desc_js_insert:
  "sorted_desc key ys \<Longrightarrow> sorted_desc key (js_insert (by_key_desc key) x ys)"
proof (induction ys)
  case Nil
  then show ?case by (simp add: sorted_desc_def)
next
  case (Cons y ys)
  then show ?case
    by (auto simp: sorted_desc_def by_key_desc_def set_js_insert)
qed

lemma sorted_desc_js_sort: "sorted_desc key (js_sort (by_key_desc key) xs)"
proof (induction xs)
  case Nil
  then show ?case by (simp add: js_sort_def sorted_desc_def)
next
  case (Cons x xs)
  then show ?case
    using sorted_desc_js_insert [of key "js_sort (by_key_desc key) xs" x]
    by (simp add: js_sort_def)
qed

lemma filter_js_insert:
  "sorted_desc key ys \<Longrightarrow>
   filter (\<lambda>y. key y = t) (js_insert (by_key_desc key) x ys) =
   (if key x = t then x # filter (\<lambda>y. key y = t) ys else filter (\<lambda>y. key y = t) ys)"
proof (induction ys)
  case Nil
  then show ?case by simp
next
  case (Cons y ys)
  then have tl: "sorted_desc key ys"
    by (simp add: sorted_desc_def)
  show ?case
  proof (cases "by_key_desc key x y \<le> 0")
    case True
    then show ?thesis by simp
  next
    case False
    then have "key x \<noteq> key y"
      by (auto simp: by_key_desc_def)
    with False Cons.IH [OF tl] show ?thesis by auto
  qed
qed

lemma filter_js_sort:
  "filter (\<lambda>y. key y = t) (js_sort (by_key_desc key) xs) = filter (\<lambda>y. key y = t) xs"
proof (induction xs)
  case Nil
  then show ?case by (simp add: js_sort_def)
next
  case (Cons x xs)
  have "filter (\<lambda>y. key y = t) (js_sort (by_key_desc key) (x # xs)) =
        filter (\<lambda>y. key y = t) (js_insert (by_key_desc key) x (js_sort (by_key_desc key) xs))"
    by (simp add: js_sort_def)
  also have "\<dots> = (if key x = t then x # filter (\<lambda>y. key y = t) (js_sort (by_key_desc key) xs)
                    else filter (\<lambda>y. key y = t) (js_sort (by_key_desc key) xs))"
    by (rule filter_js_insert [OF sorted_desc_js_sort])
  finally show ?case
    using Cons.IH by simp
qed

lemma sorted_desc_take: "sorted_desc key xs \<Longrightarrow> sorted_desc key (take n xs)"
  unfolding sorted_desc_def
proof (induction xs arbitrary: n)
  case Nil
  then show ?case by simp
next
  case (Cons x xs)
  show ?case
  proof (cases n)
    case 0
    then show ?thesis by simp
  next
    case (Suc m)
    with Cons show ?thesis
      by (auto dest: in_set_takeD)
  qed
qed

lemma prefix_filter_take: "prefix (filter P (take n xs)) (filter P xs)"
proof -
  have "filter P xs = filter P (take n xs) @ filter P (drop n xs)"
    by (simp flip: filter_append)
  then show ?thesis
    by (simp add: prefix_def)
qed

lemma length_filter_js_sort: "length (filter P (js_sort cmp xs)) = length (filter P xs)"
proof -
  have "mset (filter P (js_sort cmp xs)) = mset (filter P xs)"
    by (simp add: mset_js_sort)
  then show ?thesis
    by (metis size_mset)
qed

section \<open>The sort on times that may be invalid\<close>

lemma js_insert_cong:
  "(\<And>y. y \<in> set ys \<Longrightarrow> cmp x y = cmp' x y) \<Longrightarrow> js_insert cmp x ys = js_insert cmp' x ys"
  by (induction ys) auto

lemma js_sort_cong:
  "(\<And>x y. x \<in> set xs \<Longrightarrow> y \<in> set xs \<Longrightarrow> cmp x y = cmp' x y) \<Longrightarrow>
   js_sort cmp xs = js_sort cmp' xs"
proof (induction xs)
  case Nil
  then show ?case by (simp add: js_sort_def)
next
  case (Cons x xs)
  then have tail: "js_sort cmp xs = js_sort cmp' xs"
    by simp
  have same: "set (js_sort cmp' xs) = set xs"
    by (metis mset_js_sort set_mset_mset)
  have "js_insert cmp x (js_sort cmp' xs) = js_insert cmp' x (js_sort cmp' xs)"
    by (rule js_insert_cong) (simp add: same Cons.prems)
  with tail show ?case
    by (simp add: js_sort_def)
qed

lemma js_sort_dated:
  assumes "dated key xs"
  shows "js_sort (by_time_desc key) xs = js_sort (by_key_desc (\<lambda>x. the (key x))) xs"
proof (rule js_sort_cong)
  fix x y
  assume "x \<in> set xs" and "y \<in> set xs"
  with assms have "key x \<noteq> None" and "key y \<noteq> None"
    by (simp_all add: dated_def list_all_iff)
  then obtain a b where "key x = Some a" and "key y = Some b"
    by blast
  then show "by_time_desc key x y = by_key_desc (\<lambda>x. the (key x)) x y"
    by (simp add: by_time_desc_def by_key_desc_def)
qed

lemma sorted_desc_time_dated:
  assumes "dated key xs" and "sorted_desc (\<lambda>x. the (key x)) xs"
  shows "sorted_desc_time key xs"
proof -
  have "js_ge (key a) (key b) = (the (key b) \<le> the (key a))"
    if "a \<in> set xs" and "b \<in> set xs" for a b
  proof -
    from that assms(1) have "key a \<noteq> None" and "key b \<noteq> None"
      by (simp_all add: dated_def list_all_iff)
    then obtain s t where "key a = Some s" and "key b = Some t"
      by blast
    then show ?thesis
      by (simp add: js_ge_def)
  qed
  moreover from assms(2) have "sorted_wrt (\<lambda>a b. the (key b) \<le> the (key a)) xs"
    by (simp add: sorted_desc_def)
  ultimately have "sorted_wrt (\<lambda>a b. js_ge (key a) (key b)) xs"
    by (auto intro: sorted_wrt_mono_rel [rotated])
  then show ?thesis
    by (simp add: sorted_desc_time_def)
qed

lemma dated_js_sort: "dated key (js_sort cmp xs) = dated key xs"
proof -
  have "set (js_sort cmp xs) = set xs"
    by (metis mset_js_sort set_mset_mset)
  then show ?thesis
    by (simp add: dated_def list_all_iff)
qed

lemma sorted_desc_time_js_sort:
  assumes "dated key xs"
  shows "sorted_desc_time key (js_sort (by_time_desc key) xs)"
proof -
  have "sorted_desc (\<lambda>x. the (key x)) (js_sort (by_time_desc key) xs)"
    unfolding js_sort_dated [OF assms] by (rule sorted_desc_js_sort)
  moreover have "dated key (js_sort (by_time_desc key) xs)"
    using assms by (simp add: dated_js_sort)
  ultimately show ?thesis
    by (rule sorted_desc_time_dated [rotated])
qed

lemma filter_js_sort_dated:
  assumes "dated key xs"
  shows "filter (\<lambda>y. key y = t) (js_sort (by_time_desc key) xs) = filter (\<lambda>y. key y = t) xs"
proof (cases t)
  case None
  have "filter (\<lambda>y. key y = None) zs = []" if "dated key zs" for zs
    using that by (induction zs) (auto simp: dated_def)
  with assms None show ?thesis
    by (simp add: dated_js_sort)
next
  case (Some v)
  have same: "filter (\<lambda>y. key y = Some v) zs = filter (\<lambda>y. the (key y) = v) zs"
    if "dated key zs" for zs
    using that by (induction zs) (auto simp: dated_def)
  have "filter (\<lambda>y. the (key y) = v) (js_sort (by_key_desc (\<lambda>x. the (key x))) xs) =
        filter (\<lambda>y. the (key y) = v) xs"
    by (rule filter_js_sort)
  then show ?thesis
    using assms Some by (simp add: same dated_js_sort flip: js_sort_dated)
qed

lemma sorted_desc_time_take:
  "sorted_desc_time key xs \<Longrightarrow> sorted_desc_time key (take n xs)"
  unfolding sorted_desc_time_def
proof (induction xs arbitrary: n)
  case Nil
  then show ?case by simp
next
  case (Cons x xs)
  show ?case
  proof (cases n)
    case 0
    then show ?thesis by simp
  next
    case (Suc m)
    with Cons show ?thesis
      by (auto dest: in_set_takeD)
  qed
qed

text \<open>
  No list of two or more elements that holds an invalid time is in descending order,
  whatever the order of its elements.
\<close>

lemma undated_never_sorted:
  assumes "x \<in> set xs" and "key x = None" and "length xs \<ge> 2"
  shows "\<not> sorted_desc_time key xs"
proof
  assume "sorted_desc_time key xs"
  then have sorted: "sorted_wrt (\<lambda>a b. js_ge (key a) (key b)) xs"
    by (simp add: sorted_desc_time_def)
  from assms(1) obtain i where i: "i < length xs" and xi: "xs ! i = x"
    by (auto simp: in_set_conv_nth)
  from assms(3) i obtain j where j: "j < length xs" and ne: "j \<noteq> i"
    by (cases "i = 0") (auto intro: that [of 1] that [of 0])
  show False
  proof (cases "i < j")
    case True
    with sorted j have "js_ge (key (xs ! i)) (key (xs ! j))"
      by (simp add: sorted_wrt_iff_nth_less)
    with xi assms(2) show False
      by (simp add: js_ge_def)
  next
    case False
    with ne have "j < i" by simp
    with sorted i have "js_ge (key (xs ! j)) (key (xs ! i))"
      by (simp add: sorted_wrt_iff_nth_less)
    with xi assms(2) show False
      by (simp add: js_ge_def split: option.splits)
  qed
qed


section \<open>Deleted-file finder: order of the result\<close>

text \<open>
  When every collected finding has a valid \<^verbatim>\<open>deletedTime\<close>, the list that
  \<^verbatim>\<open>getRecentlyDeletedFiles\<close> returns is in descending order of \<^verbatim>\<open>deletedTime\<close>, and findings
  with the same \<^verbatim>\<open>deletedTime\<close> keep the order in which they were collected: for every time
  \<open>t\<close> the findings of the result with that time are the collected findings with that
  time, in the same order (the first fork), or a prefix of them (the second fork, which
  cuts the sorted list).
\<close>

lemma getRecentlyDeletedFiles1_sorted_stable_when_dated:
  assumes "getRecentlyDeletedFiles1 env = Inr out"
    and "collectDeleted1 env = Inr collected"
    and "dated deletedTime collected"
  shows "sorted_desc_time deletedTime out"
    and "mset out = mset collected"
    and "filter (\<lambda>f. deletedTime f = t) out = filter (\<lambda>f. deletedTime f = t) collected"
proof -
  from assms(1,2) have out: "out = js_sort (by_time_desc deletedTime) collected"
    by (simp add: getRecentlyDeletedFiles1_def)
  show "sorted_desc_time deletedTime out"
    unfolding out by (rule sorted_desc_time_js_sort [OF assms(3)])
  show "mset out = mset collected"
    unfolding out by (rule mset_js_sort)
  show "filter (\<lambda>f. deletedTime f = t) out = filter (\<lambda>f. deletedTime f = t) collected"
    unfolding out by (rule filter_js_sort_dated [OF assms(3)])
qed

lemma getRecentlyDeletedFiles2_sorted_stable_when_dated:
  assumes "dated deletedTime (collectDeleted2 env)"
  shows "sorted_desc_time deletedTime (getRecentlyDeletedFiles2 env)"
    and "prefix (filter (\<lambda>f. deletedTime f = t) (getRecentlyDeletedFiles2 env))
                (filter (\<lambda>f. deletedTime f = t) (collectDeleted2 env))"
proof -
  show "sorted_desc_time deletedTime (getRecentlyDeletedFiles2 env)"
    unfolding getRecentlyDeletedFiles2_def
    by (rule sorted_desc_time_take [OF sorted_desc_time_js_sort [OF assms]])
  have "prefix (filter (\<lambda>f. deletedTime f = t)
                  (take 20 (js_sort (by_time_desc deletedTime) (collectDeleted2 env))))
               (filter (\<lambda>f. deletedTime f = t)
                  (js_sort (by_time_desc deletedTime) (collectDeleted2 env)))"
    by (rule prefix_filter_take)
  then show "prefix (filter (\<lambda>f. deletedTime f = t) (getRecentlyDeletedFiles2 env))
                (filter (\<lambda>f. deletedTime f = t) (collectDeleted2 env))"
    by (simp add: getRecentlyDeletedFiles2_def filter_js_sort_dated [OF assms])
qed

text \<open>
  On the Linux trash folder of the sample all times are valid; the file deleted last comes
  first, and the two files deleted at the same time follow in the order of the folder.
\<close>

lemma getRecentlyDeletedFiles_dated_sample:
  "dated deletedTime sampleTrash \<and>
   getRecentlyDeletedFiles1 sampleDeletedEnv =
     Inr [sampleTrash ! 1, sampleTrash ! 0, sampleTrash ! 2] \<and>
   getRecentlyDeletedFiles2 sampleDeletedEnv =
     [sampleTrash ! 1, sampleTrash ! 0, sampleTrash ! 2] \<and>
   sorted_desc_time deletedTime [sampleTrash ! 1, sampleTrash ! 0, sampleTrash ! 2]"
  by code_simp

text \<open>
  With the two dated files of the recycle bin and the undated event of the event log, no
  order of the three findings is descending, so that the answer does not depend on what
  the engine's \<^verbatim>\<open>sort\<close> does with a comparator that is not consistent.
\<close>

lemma undated_event_any_order:
  assumes "mset ys = mset [sampleOlderFile, sampleNewerFile, sampleUndatedEvent]"
  shows "\<not> sorted_desc_time deletedTime ys"
proof (rule undated_never_sorted)
  from assms have "set ys = set [sampleOlderFile, sampleNewerFile, sampleUndatedEvent]"
    by (metis set_mset_mset)
  then show "sampleUndatedEvent \<in> set ys"
    by simp
  show "deletedTime sampleUndatedEvent = None"
    by (simp add: sampleUndatedEvent_def)
  from assms have "length ys = length [sampleOlderFile, sampleNewerFile, sampleUndatedEvent]"
    by (metis size_mset)
  then show "2 \<le> length ys"
    by simp
qed

text \<open>
  Claim C8 says that the list returned by \<^verbatim>\<open>getRecentlyDeletedFiles\<close> is sorted by
  \<^verbatim>\<open>deletedTime\<close> in descending order, with findings of equal \<^verbatim>\<open>deletedTime\<close> in the order in
  which they were collected, in both forks. On Windows both forks push the findings of the
  event log with a \<^verbatim>\<open>deletedTime\<close> that they have not checked. With two files in the recycle
  bin and one event whose time is not a date for \<^verbatim>\<open>new Date\<close>, both forks collect the three
  findings and return them, and the list that each returns is not in descending order of
  \<^verbatim>\<open>deletedTime\<close>; nor is any of the six orders of the three findings, so that this does not
  depend on the order that \<^verbatim>\<open>sort\<close> gives.
\<close>

theorem getRecentlyDeletedFiles_undated_event_unsorted:
  "collectDeleted1 sampleUndatedEventEnv =
     Inr [sampleOlderFile, sampleNewerFile, sampleUndatedEvent] \<and>
   collectDeleted2 sampleUndatedEventEnv =
     [sampleUndatedEvent, sampleOlderFile, sampleNewerFile] \<and>
   deletedTime sampleUndatedEvent = None \<and>
   \<not> isl (getRecentlyDeletedFiles1 sampleUndatedEventEnv) \<and>
   \<not> sorted_desc_time deletedTime (projr (getRecentlyDeletedFiles1 sampleUndatedEventEnv)) \<and>
   \<not> sorted_desc_time deletedTime (getRecentlyDeletedFiles2 sampleUndatedEventEnv) \<and>
   \<not> sorted_desc_time deletedTime [sampleOlderFile, sampleNewerFile, sampleUndatedEvent] \<and>
   \<not> sorted_desc_time deletedTime [sampleOlderFile, sampleUndatedEvent, sampleNewerFile] \<and>
   \<not> sorted_desc_time deletedTime [sampleNewerFile, sampleOlderFile, sampleUndatedEvent] \<and>
   \<not> sorted_desc_time deletedTime [sampleNewerFile, sampleUndatedEvent, sampleOlderFile] \<and>
   \<not> sorted_desc_time deletedTime [sampleUndatedEvent, sampleOlderFile, sampleNewerFile] \<and>
   \<not> sorted_desc_time deletedTime [sampleUndatedEvent, sampleNewerFile, sampleOlderFile]"
  by code_simp

section \<open>Deleted-file finder: the cut of the second fork\<close>

text \<open>
  When every collected finding has a valid \<^verbatim>\<open>deletedTime\<close>, no finding that the cut leaves
  out is newer than a finding of the result.
\<close>

lemma getRecentlyDeletedFiles2_keeps_newest_when_dated:
  assumes "dated deletedTime (collectDeleted2 env)"
  shows "\<exists>dropped. mset (collectDeleted2 env) = mset (getRecentlyDeletedFiles2 env) + mset dropped \<and>
           (\<forall>kept \<in> set (getRecentlyDeletedFiles2 env). \<forall>f \<in> set dropped.
              js_ge (deletedTime kept) (deletedTime f))"
proof -
  let ?sorted = "js_sort (by_time_desc deletedTime) (collectDeleted2 env)"
  have "sorted_wrt (\<lambda>a b. js_ge (deletedTime a) (deletedTime b))
          (take 20 ?sorted @ drop 20 ?sorted)"
    using sorted_desc_time_js_sort [OF assms]
    by (simp add: sorted_desc_time_def)
  then have order: "\<forall>kept \<in> set (take 20 ?sorted). \<forall>f \<in> set (drop 20 ?sorted).
                      js_ge (deletedTime kept) (deletedTime f)"
    unfolding sorted_wrt_append by blast
  have "mset (collectDeleted2 env) = mset (take 20 ?sorted) + mset (drop 20 ?sorted)"
    by (metis mset_js_sort append_take_drop_id mset_append)
  with order show ?thesis
    unfolding getRecentlyDeletedFiles2_def by blast
qed



section \<open>Original-name guess on a double extension\<close>

text \<open>
  Claim C2 says that \<^verbatim>\<open>getOriginalNameGuess("mod.jar.txt")\<close> is \<^verbatim>\<open>"mod.jar"\<close> in both
  forks. The second fork returns something else.
\<close>

theorem getOriginalNameGuess2_counterexample:
  "getOriginalNameGuess2 ''mod.jar.txt'' \<noteq> ''mod.jar''"
  by code_simp

text \<open>
  Claim C2, amended. \<^verbatim>\<open>getOriginalNameGuess("mod.jar.txt")\<close> is \<^verbatim>\<open>"mod.jar"\<close> in the first
  fork, and \<^verbatim>\<open>"mod.txt"\<close> in the second fork, which keeps the first and the last of the
  dot-separated parts of a name with more than two parts.
\<close>

theorem getOriginalNameGuess_mod_jar_txt:
  "getOriginalNameGuess1 ''mod.jar.txt'' = Some ''mod.jar'' \<and>
   getOriginalNameGuess2 ''mod.jar.txt'' = ''mod.txt''"
  by code_simp

section \<open>Executed-JAR finder: duplicates\<close>

lemma uniqueLoop_acc:
  "uniqueLoop norm xs seen acc = acc @ uniqueLoop norm xs seen []"
proof (induction xs arbitrary: seen acc)
  case Nil
  then show ?case by simp
next
  case (Cons x xs)
  show ?case
  proof (cases "norm (ej_path x) \<in> seen")
    case True
    then show ?thesis using Cons.IH [of seen acc] by simp
  next
    case False
    then show ?thesis
      using Cons.IH [of "insert (norm (ej_path x)) seen" "acc @ [x]"]
            Cons.IH [of "insert (norm (ej_path x)) seen" "[x]"]
      by simp
  qed
qed

lemma filter_uniqueLoop:
  "filter (\<lambda>j. norm (ej_path j) = k) (uniqueLoop norm xs seen []) =
   (if k \<in> seen then [] else take 1 (filter (\<lambda>j. norm (ej_path j) = k) xs))"
proof (induction xs arbitrary: seen)
  case Nil
  then show ?case by simp
next
  case (Cons x xs)
  show ?case
  proof (cases "norm (ej_path x) \<in> seen")
    case True
    then show ?thesis using Cons.IH [of seen] by auto
  next
    case False
    have "uniqueLoop norm (x # xs) seen [] =
          x # uniqueLoop norm xs (insert (norm (ej_path x)) seen) []"
      using False uniqueLoop_acc [of norm xs "insert (norm (ej_path x)) seen" "[x]"] by simp
    then show ?thesis
      using False Cons.IH [of "insert (norm (ej_path x)) seen"] by auto
  qed
qed

lemma one_survivor:
  assumes "a \<in> set xs"
  shows "length (filter (\<lambda>j. norm (ej_path j) = norm (ej_path a))
           (js_sort cmp (uniqueLoop norm xs {} []))) = 1"
proof -
  from assms have "filter (\<lambda>j. norm (ej_path j) = norm (ej_path a)) xs \<noteq> []"
    by (auto simp: filter_empty_conv)
  then have "length (take 1 (filter (\<lambda>j. norm (ej_path j) = norm (ej_path a)) xs)) = 1"
    by (cases "filter (\<lambda>j. norm (ej_path j) = norm (ej_path a)) xs") simp_all
  then show ?thesis
    by (simp add: length_filter_js_sort filter_uniqueLoop)
qed

text \<open>
  Claim C1 says that of two collected findings whose paths differ by letter case only,
  exactly one is in the list that \<^verbatim>\<open>getRecentlyExecutedJars\<close> returns, in both forks. The
  first fork keeps both.
\<close>

theorem getRecentlyExecutedJars1_counterexample:
  "map ej_path (getRecentlyExecutedJars1 noDateParser sampleExecutedEnv) =
     [''C:/mods/a.jar'', ''C:/Mods/A.jar''] \<and>
   toLowerCase ''C:/mods/a.jar'' = toLowerCase ''C:/Mods/A.jar''"
  by code_simp

text \<open>
  Claim C1, amended. The second fork removes duplicates by the lower-cased path: for every
  collected finding, exactly one finding of the returned list has the same lower-cased
  path. The first fork removes duplicates by the path as it is written: for every
  collected finding, exactly one finding of the returned list has the same path, so
  that two findings whose paths differ by letter case are both returned.
\<close>

theorem getRecentlyExecutedJars_unique_paths:
  "(a \<in> set (ee_executedJars env) \<longrightarrow>
      length (filter (\<lambda>j. toLowerCase (ej_path j) = toLowerCase (ej_path a))
                (getRecentlyExecutedJars2 parseDate env)) = 1) \<and>
   (b \<in> set (collectExecuted1 env) \<longrightarrow>
      length (filter (\<lambda>j. ej_path j = ej_path b)
                (getRecentlyExecutedJars1 parseDate env)) = 1)"
  unfolding getRecentlyExecutedJars2_def getRecentlyExecutedJars1_def
  using one_survivor [of a "ee_executedJars env" toLowerCase]
        one_survivor [of b "collectExecuted1 env" "\<lambda>p. p"]
  by blast

theorem getRecentlyExecutedJars_unique_paths_witness:
  "sampleJarUpper \<in> set (ee_executedJars sampleExecutedEnv) \<and>
   sampleJarUpper \<in> set (collectExecuted1 sampleExecutedEnv) \<and>
   length (filter (\<lambda>j. toLowerCase (ej_path j) = toLowerCase (ej_path sampleJarUpper))
             (getRecentlyExecutedJars2 noDateParser sampleExecutedEnv)) = 1 \<and>
   length (filter (\<lambda>j. ej_path j = ej_path sampleJarUpper)
             (getRecentlyExecutedJars1 noDateParser sampleExecutedEnv)) = 1"
proof -
  have m2: "sampleJarUpper \<in> set (ee_executedJars sampleExecutedEnv)"
    by (simp add: sampleExecutedEnv_def)
  have m1: "sampleJarUpper \<in> set (collectExecuted1 sampleExecutedEnv)"
    by (simp add: sampleExecutedEnv_def collectExecuted1_def)
  from m1 m2 getRecentlyExecutedJars_unique_paths
               [of sampleJarUpper sampleExecutedEnv noDateParser sampleJarUpper]
  show ?thesis by blast
qed

section \<open>Minecraft mod scans: keywords and whitelist\<close>













section \<open>Screen-recording checker: a positive result names an application\<close>

lemma fold_keeps:
  assumes "\<And>x r. P r \<Longrightarrow> P (f x r)" and "P r"
  shows "P (fold f xs r)"
  using assms(2) by (induction xs arbitrary: r) (simp_all add: assms(1))

lemma forEachRow_keeps:
  assumes "\<And>x r. P r \<Longrightarrow> P (f x r)" and "P r"
  shows "P (forEachRow f rows r)"
  using assms by (cases rows) (simp_all add: forEachRow_def fold_keeps)

lemma tasklistRound_keeps: "named_when_recording r \<Longrightarrow> named_when_recording (tasklistRound v r)"
  by (auto simp: named_when_recording_def tasklistRound_def split: option.splits)

lemma serviceRound_keeps: "named_when_recording r \<Longrightarrow> named_when_recording (serviceRound v r)"
  by (auto simp: named_when_recording_def serviceRound_def split: option.splits)

lemma deviceRound_keeps: "named_when_recording r \<Longrightarrow> named_when_recording (deviceRound v r)"
  by (auto simp: named_when_recording_def deviceRound_def Let_def split: option.splits)

lemma processRound_keeps: "named_when_recording r \<Longrightarrow> named_when_recording (processRound v r)"
  by (auto simp: named_when_recording_def processRound_def)

lemma permissionRound_keeps: "named_when_recording r \<Longrightarrow> named_when_recording (permissionRound v r)"
  by (auto simp: named_when_recording_def permissionRound_def split: option.splits)

lemma compositorRound_keeps: "named_when_recording r \<Longrightarrow> named_when_recording (compositorRound v r)"
  by (auto simp: named_when_recording_def compositorRound_def)

lemma checkScreenRecording1_named:
  "named_when_recording (checkScreenRecording1 env)"
proof -
  have start: "named_when_recording \<lparr>recording = False, applications = []\<rparr>"
    by (simp add: named_when_recording_def)
  show ?thesis
  proof (cases "sr_platform env")
    case Win32
    then show ?thesis
      by (simp add: checkScreenRecording1_def Let_def forEachRow_keeps tasklistRound_keeps
            serviceRound_keeps deviceRound_keeps start)
  next
    case Darwin
    then show ?thesis
      by (simp add: checkScreenRecording1_def Let_def forEachRow_keeps fold_keeps processRound_keeps
            permissionRound_keeps start split: option.splits)
  next
    case Linux
    then show ?thesis
      by (simp add: checkScreenRecording1_def Let_def forEachRow_keeps fold_keeps processRound_keeps
            compositorRound_keeps start split: option.splits)
  qed
qed

text \<open>
  Claim C10. Whenever \<^verbatim>\<open>checkScreenRecording\<close> returns a result with \<^verbatim>\<open>recording\<close> true,
  the \<^verbatim>\<open>applications\<close> list of that result is not empty, in both forks.
\<close>

theorem checkScreenRecording_names_applications:
  "(recording (checkScreenRecording1 env) \<longrightarrow> applications (checkScreenRecording1 env) \<noteq> []) \<and>
   (recording (checkScreenRecording2 env2) \<longrightarrow> applications (checkScreenRecording2 env2) \<noteq> [])"
proof
  show "recording (checkScreenRecording1 env) \<longrightarrow> applications (checkScreenRecording1 env) \<noteq> []"
    using checkScreenRecording1_named [of env] by (simp add: named_when_recording_def)
  show "recording (checkScreenRecording2 env2) \<longrightarrow> applications (checkScreenRecording2 env2) \<noteq> []"
    by (simp add: checkScreenRecording2_def Let_def)
qed

theorem checkScreenRecording_names_applications_witness:
  "recording (checkScreenRecording1 sampleRecordingEnv) \<and>
   applications (checkScreenRecording1 sampleRecordingEnv) \<noteq> [] \<and>
   recording (checkScreenRecording2 sampleRecordingEnv2) \<and>
   applications (checkScreenRecording2 sampleRecordingEnv2) \<noteq> []"
proof -
  have r1: "recording (checkScreenRecording1 sampleRecordingEnv)"
    by code_simp
  have r2: "recording (checkScreenRecording2 sampleRecordingEnv2)"
    by code_simp
  from r1 r2 checkScreenRecording_names_applications [of sampleRecordingEnv sampleRecordingEnv2]
  show ?thesis by blast
qed

section \<open>JAR finder: order of the result\<close>

text \<open>
  Claim C3 says that every list returned by \<^verbatim>\<open>findAllJarFiles\<close> is sorted by
  \<^verbatim>\<open>lastModified\<close> in descending order, in both forks. The second fork returns the older
  file of the sample disk before the newer one.
\<close>

theorem findAllJarFiles2_counterexample:
  "\<not> sorted_desc lastModified (findAllJarFiles2 sampleFilesystem ''/home/u'' [''/''])"
  by code_simp

text \<open>
  Claim C3, amended. Every list returned by the first fork's \<^verbatim>\<open>findAllJarFiles\<close> is sorted
  by \<^verbatim>\<open>lastModified\<close> in descending order, and holds the files that the walk has found.
  The second fork does not sort: it returns the files in the order in which its walks
  push them, as on the sample disk, where the \<^verbatim>\<open>Downloads\<close> folder is walked first and
  then, with fewer than ten files found, the whole disk.
\<close>

theorem findAllJarFiles_order:
  "sorted_desc lastModified (findAllJarFiles1 F drives options) \<and>
   mset (findAllJarFiles1 F drives options) = mset (collectJars1 F drives options) \<and>
   map lastModified (findAllJarFiles2 sampleFilesystem ''/home/u'' [''/'']) =
     [100, 200, 100, 200]"
proof (intro conjI)
  show "sorted_desc lastModified (findAllJarFiles1 F drives options)"
    unfolding findAllJarFiles1_def by (rule sorted_desc_js_sort)
  show "mset (findAllJarFiles1 F drives options) = mset (collectJars1 F drives options)"
    unfolding findAllJarFiles1_def by (rule mset_js_sort)
  show "map lastModified (findAllJarFiles2 sampleFilesystem ''/home/u'' [''/'']) =
          [100, 200, 100, 200]"
    by code_simp
qed

theorem findAllJarFiles_order_witness:
  "map lastModified (findAllJarFiles1 sampleFilesystem [''/''] noOptions) = [200, 100] \<and>
   sorted_desc lastModified (findAllJarFiles1 sampleFilesystem [''/''] noOptions)"
proof -
  have "map lastModified (findAllJarFiles1 sampleFilesystem [''/''] noOptions) = [200, 100]"
    by code_simp
  with findAllJarFiles_order [of sampleFilesystem "[''/'']" noOptions]
  show ?thesis by blast
qed

section \<open>IPC handlers: errors become values\<close>

lemma probeHandler_resolves:
  "probeHandler m name args =
     (case callExport m name args of
        Inl error \<Rightarrow> Inr (ErrorObject (message error))
      | Inr result \<Rightarrow> Inr (Value result))"
  by (simp add: probeHandler_def split: sum.splits)

lemma exportHandler_resolves: "\<exists>reply. exportHandler main data = Inr reply"
  by (simp add: exportHandler_def split: sum.splits option.splits)

text \<open>
  Claim C4. No handler registered with \<^verbatim>\<open>ipcMain.handle\<close> propagates an exception to the
  GUI: every handler resolves. When the function of \<^verbatim>\<open>systemUtils\<close> behind a probe handler
  throws, the handler returns \<^verbatim>\<open>{ error: message }\<close> with the message of the error;
  otherwise it returns the result of the probe unchanged.
\<close>

theorem ipc_handlers_never_throw:
  assumes "(channel, handler) \<in> set (ipcHandlers main)"
  shows "(\<exists>reply. handler arg = Inr reply) \<and>
         (channel \<noteq> ''export-results'' \<longrightarrow>
            (\<exists>name passes. (channel, name, passes) \<in> set probeOfChannel \<and>
               (\<forall>error. callExport (systemUtils main) name (if passes then [arg] else []) = Inl error \<longrightarrow>
                    handler arg = Inr (ErrorObject (message error))) \<and>
               (\<forall>result. callExport (systemUtils main) name (if passes then [arg] else []) = Inr result \<longrightarrow>
                    handler arg = Inr (Value result))))"
proof -
  have resolves: "(\<exists>reply. probeHandler m name args = Inr reply) \<and>
        (\<forall>error. callExport m name args = Inl error \<longrightarrow>
              probeHandler m name args = Inr (ErrorObject (message error))) \<and>
        (\<forall>result. callExport m name args = Inr result \<longrightarrow>
              probeHandler m name args = Inr (Value result))" for m :: "'a js_module" and name args
    by (simp add: probeHandler_def split: sum.splits)
  have handlers: "ipcHandlers main =
      map (\<lambda>(c, n, p). (c, \<lambda>a. probeHandler (systemUtils main) n (if p then [a] else [])))
          probeOfChannel @
      [(''export-results'', exportHandler main)]"
    by (simp add: ipcHandlers_def probeOfChannel_def)
  from assms consider
      (probe) name passes where "(channel, name, passes) \<in> set probeOfChannel"
        and "handler = (\<lambda>a. probeHandler (systemUtils main) name (if passes then [a] else []))"
    | (export) "channel = ''export-results''" and "handler = exportHandler main"
    unfolding handlers by auto
  then show ?thesis
  proof cases
    case probe
    then show ?thesis
      using resolves [of "systemUtils main" name "if passes then [arg] else []"] by blast
  next
    case export
    then show ?thesis
      using exportHandler_resolves [of main arg] by simp
  qed
qed


theorem ipc_handlers_never_throw_witness:
  "(''find-jar-files'', \<lambda>_. probeHandler (systemUtils sampleMain) ''findAllJarFiles'' [])
     \<in> set (ipcHandlers sampleMain) \<and>
   callExport (systemUtils sampleMain) ''findAllJarFiles'' [] =
     Inl (Error ''EACCES: permission denied'') \<and>
   probeHandler (systemUtils sampleMain) ''findAllJarFiles'' [] =
     Inr (ErrorObject ''EACCES: permission denied'')"
proof -
  have m: "(''find-jar-files'', \<lambda>_. probeHandler (systemUtils sampleMain) ''findAllJarFiles'' [])
             \<in> set (ipcHandlers sampleMain)"
    by (simp add: ipcHandlers_def)
  have t: "callExport (systemUtils sampleMain) ''findAllJarFiles'' [] =
             Inl (Error ''EACCES: permission denied'')"
    by (simp add: callExport_def sampleMain_def sampleModule_def)
  have p: "(''find-jar-files'', name, passes) \<in> set probeOfChannel \<Longrightarrow>
             name = ''findAllJarFiles'' \<and> \<not> passes"
    for name passes
    by (auto simp: probeOfChannel_def)
  have ne: "''find-jar-files'' \<noteq> ''export-results''"
    by simp
  from ipc_handlers_never_throw [OF m, of "''ignored''"] ne
  obtain name passes where listed: "(''find-jar-files'', name, passes) \<in> set probeOfChannel"
    and caught: "\<forall>error. callExport (systemUtils sampleMain) name
                             (if passes then [''ignored''] else []) = Inl error \<longrightarrow>
                   probeHandler (systemUtils sampleMain) ''findAllJarFiles'' [] =
                     Inr (ErrorObject (message error))"
    by blast
  from p [OF listed] have "name = ''findAllJarFiles''" and "\<not> passes"
    by simp_all
  with caught t
  have "probeHandler (systemUtils sampleMain) ''findAllJarFiles'' [] =
          Inr (ErrorObject ''EACCES: permission denied'')"
    by (simp add: message_def)
  with m t show ?thesis
    by blast
qed

section \<open>Browser-history inspection: the temporary copy\<close>

lemma historyRound1_keeps_copy_when_query_fails:
  "io_copyOk io \<Longrightarrow> io_stdout io = None \<Longrightarrow>
   path_join tempDir (''history_'' @ io_now io @ ''.db'')
     \<in> tempFiles (historyRound1 tempDir historyPath io st)"
  by (simp add: historyRound1_def Let_def)

lemma historyRound2_removes_copy:
  "io_unlinkOk io \<Longrightarrow>
   path_join tempDir tempName \<notin> tempFiles st \<Longrightarrow>
   path_join tempDir tempName \<notin> tempFiles (historyRound2 tempDir tempName io st)"
  by (simp add: historyRound2_def Let_def)

lemma historyLoop1_queries_copies:
  "p \<in> set (queried (historyLoop1 tempDir rounds st)) \<Longrightarrow>
   p \<in> set (queried st) \<or> (\<exists>stamp. p = path_join tempDir (''history_'' @ stamp @ ''.db''))"
proof (induction rounds arbitrary: st)
  case Nil
  then show ?case by simp
next
  case (Cons r rounds)
  obtain historyPath io where r: "r = (historyPath, io)"
    by (cases r)
  from Cons.prems have "p \<in> set (queried (historyLoop1 tempDir rounds (historyRound1 tempDir historyPath io st)))"
    by (simp add: r)
  from Cons.IH [OF this] show ?case
    by (auto simp: historyRound1_def Let_def split: if_splits option.splits)
qed

text \<open>
  Claim C7 says that the temporary copy of a history file is always deleted after use,
  also on every error path. In \<^verbatim>\<open>checkBrowserHistoryFiles\<close> of the first fork the rejected
  promise of the PowerShell command leaves the round before \<^verbatim>\<open>unlinkSync\<close>: with one
  Chrome history file, a copy that works and a command that fails, the copy is still in
  the temporary directory when the loop is over.
\<close>

theorem checkBrowserHistoryFiles_leaves_temp_copy:
  "''C:/Temp/history_1700000000000.db''
     \<in> tempFiles (historyLoop1 ''C:/Temp'' [(sampleChromeHistory, sampleFailedQuery)] emptyTemp)"
  by (simp add: historyRound1_def sampleFailedQuery_def emptyTemp_def path_join_def Let_def)

section \<open>File-system access of the exported operations: what is not read-only\<close>

lemma reachable_closed:
  "list_all (\<lambda>f. closedUnderCalls callees1 (reachable callees1 callDepth [f]))
     systemUtils1_exports \<and>
   list_all (\<lambda>f. closedUnderCalls callees2 (reachable callees2 callDepth [f]))
     systemUtils2_exports"
  by code_simp

text \<open>
  Claim C5 says that the only exported operation that does more than read the file
  system is the browser-history inspection with its temporary copy.
  \<^verbatim>\<open>registerSelfDestruct\<close>, an export of the first fork that does not reach the
  browser-history inspection, writes a batch script into the temporary directory and
  starts it; the script deletes the executable of the program.
\<close>

theorem registerSelfDestruct_counterexample:
  "registerSelfDestruct \<in> set systemUtils1_exports \<and>
   checkBrowserHistoryFiles \<notin> set (reachable callees1 callDepth [registerSelfDestruct]) \<and>
   ''/tmp/delete_1700000000000.bat'' \<notin> {} \<and>
   ''/tmp/delete_1700000000000.bat''
     \<in> sd_files (registerSelfDestruct1 ''/opt/kenibox/kenibox'' ''/tmp'' ''1700000000000'' {}) \<and>
   sd_scriptDeletes (registerSelfDestruct1 ''/opt/kenibox/kenibox'' ''/tmp'' ''1700000000000'' {}) =
     [''/opt/kenibox/kenibox'', ''/tmp/delete_1700000000000.bat'']"
proof (intro conjI)
  show "registerSelfDestruct \<in> set systemUtils1_exports"
    by code_simp
  show "checkBrowserHistoryFiles \<notin> set (reachable callees1 callDepth [registerSelfDestruct])"
    by code_simp
  show "''/tmp/delete_1700000000000.bat'' \<notin> {}"
    by simp
  show "''/tmp/delete_1700000000000.bat''
     \<in> sd_files (registerSelfDestruct1 ''/opt/kenibox/kenibox'' ''/tmp'' ''1700000000000'' {})"
    by (simp add: registerSelfDestruct1_def path_join_def Let_def)
  show "sd_scriptDeletes (registerSelfDestruct1 ''/opt/kenibox/kenibox'' ''/tmp'' ''1700000000000'' {}) =
     [''/opt/kenibox/kenibox'', ''/tmp/delete_1700000000000.bat'']"
    by (simp add: registerSelfDestruct1_def path_join_def Let_def)
qed

text \<open>
  Claim C5, amended. The exported operations of the two forks call only reading
  functions of the \<^verbatim>\<open>fs\<close> API (\<^verbatim>\<open>existsSync\<close>, \<^verbatim>\<open>readdir\<close>, \<^verbatim>\<open>stat\<close>, \<^verbatim>\<open>readFile\<close> and their
  synchronous forms), themselves or through the functions they call, with three
  exceptions: \<^verbatim>\<open>detectMinecraftCheats\<close> in both forks (the browser-history inspection copies
  a history file to a temporary path and unlinks the copy), \<^verbatim>\<open>getCommandHistory\<close> in the
  first fork (a shell command redirects its output into a temporary file, which is read
  and unlinked), and \<^verbatim>\<open>registerSelfDestruct\<close> in the first fork (it writes a batch script
  and starts it, and the script deletes the executable and itself).
\<close>

theorem exported_operations_file_access:
  "filter (\<lambda>f. mutatingCalls fsCalls1 callees1 f \<noteq> []) systemUtils1_exports =
     [detectMinecraftCheats, getCommandHistory, registerSelfDestruct] \<and>
   mutatingCalls fsCalls1 callees1 detectMinecraftCheats = [copyFileSync, unlinkSync] \<and>
   mutatingCalls fsCalls1 callees1 getCommandHistory = [unlink, execToFile] \<and>
   mutatingCalls fsCalls1 callees1 registerSelfDestruct = [writeFileSync, spawn] \<and>
   filter (\<lambda>f. mutatingCalls fsCalls2 callees2 f \<noteq> []) systemUtils2_exports =
     [detectMinecraftCheats] \<and>
   mutatingCalls fsCalls2 callees2 detectMinecraftCheats = [copyFileSync, unlinkSync]"
  by code_simp

end
